theory Spec2Isabelle
  imports Complex_Main
begin

section \<open>Python values\<close>

text \<open>
  The exceptions the handlers can raise. A handler that raises stops where it is; what
  it had written to the widgets before stays written.
\<close>

datatype error =
  AttributeError | TypeError | ValueError | KeyError | IndexError | OverflowError

text \<open>
  A Python float: a finite value other than the negative zero, the negative zero, an
  infinity or a NaN. \<open>Fin 0\<close> is the float \<^verbatim>\<open>0.0\<close>. The finite values are taken from
  the reals, of which the doubles are some.
\<close>

datatype pyfloat = Fin real | NegZero | PosInf | NegInf | NaN

text \<open>
  What \<^verbatim>\<open>json.loads\<close> returns: \<^verbatim>\<open>None\<close>, a bool, an int, a float (among them the
  infinities and NaN, which it reads from \<^verbatim>\<open>1e999\<close>, \<^verbatim>\<open>Infinity\<close> and \<^verbatim>\<open>NaN\<close>), a str, a
  list or a dict with string keys. A dict is kept as an association list in which the
  first binding of a key is the dict's value for it.
\<close>

datatype json =
    JNull
  | JBool bool
  | JInt int
  | JFloat pyfloat
  | JStr string
  | JArr "json list"
  | JObj "(string \<times> json) list"

text \<open>Truth value of a Python object, as \<^verbatim>\<open>not x\<close>, \<^verbatim>\<open>if x\<close> and \<^verbatim>\<open>x or y\<close> test it.\<close>

fun truthy :: "json \<Rightarrow> bool" where
  "truthy JNull = False"
| "truthy (JBool b) = b"
| "truthy (JInt n) = (n \<noteq> 0)"
| "truthy (JFloat x) = (x \<noteq> Fin 0 \<and> x \<noteq> NegZero)"
| "truthy (JStr s) = (s \<noteq> [])"
| "truthy (JArr xs) = (xs \<noteq> [])"
| "truthy (JObj kvs) = (kvs \<noteq> [])"

definition py_or :: "json \<Rightarrow> json \<Rightarrow> json" where
  "py_or a b = (if truthy a then a else b)"

text \<open>\<^verbatim>\<open>x.get(k, d)\<close>: only a dict has the method.\<close>

fun py_get :: "json \<Rightarrow> string \<Rightarrow> json \<Rightarrow> error + json" where
  "py_get (JObj kvs) k d = Inr (case map_of kvs k of None \<Rightarrow> d | Some v \<Rightarrow> v)"
| "py_get _ k d = Inl AttributeError"

text \<open>\<^verbatim>\<open>x[k]\<close> with a string key.\<close>

fun py_item :: "json \<Rightarrow> string \<Rightarrow> error + json" where
  "py_item (JObj kvs) k = (case map_of kvs k of None \<Rightarrow> Inl KeyError | Some v \<Rightarrow> Inr v)"
| "py_item _ k = Inl TypeError"

text \<open>The keys of a dict, in the order of their first binding.\<close>

definition keys :: "(string \<times> json) list \<Rightarrow> string list" where
  "keys kvs = rev (remdups (rev (map fst kvs)))"

text \<open>\<^verbatim>\<open>len(x)\<close>.\<close>

fun py_len :: "json \<Rightarrow> error + nat" where
  "py_len (JArr xs) = Inr (length xs)"
| "py_len (JStr s) = Inr (length s)"
| "py_len (JObj kvs) = Inr (length (keys kvs))"
| "py_len _ = Inl TypeError"

text \<open>
  \<^verbatim>\<open>x[i]\<close> with an index \<open>i \<ge> 0\<close> (the handlers index with loop counters and with 0
  only). A dict read from JSON has no integer key.
\<close>

fun py_index :: "json \<Rightarrow> nat \<Rightarrow> error + json" where
  "py_index (JArr xs) i = (if i < length xs then Inr (xs ! i) else Inl IndexError)"
| "py_index (JStr s) i = (if i < length s then Inr (JStr [s ! i]) else Inl IndexError)"
| "py_index (JObj kvs) i = Inl KeyError"
| "py_index _ i = Inl TypeError"

text \<open>The items a \<^verbatim>\<open>for\<close> loop over \<open>x\<close> visits.\<close>

fun py_iter :: "json \<Rightarrow> error + json list" where
  "py_iter (JArr xs) = Inr xs"
| "py_iter (JStr s) = Inr (map (\<lambda>c. JStr [c]) s)"
| "py_iter (JObj kvs) = Inr (map JStr (keys kvs))"
| "py_iter _ = Inl TypeError"

text \<open>\<^verbatim>\<open>enumerate(xs)\<close>.\<close>

definition enumerate0 :: "'a list \<Rightarrow> (nat \<times> 'a) list" where
  "enumerate0 xs = zip [0..<length xs] xs"

subsection \<open>Library functions\<close>

record date =
  year :: nat
  month :: nat
  day :: nat

record datetime =
  on_date :: date
  hour :: nat
  minute :: nat

text \<open>
  The standard library's parsers are parameters of the model:
  \<^verbatim>\<open>datetime.fromisoformat\<close> on a string, and \<^verbatim>\<open>float\<close> and \<^verbatim>\<open>int\<close> on a string.
  \<open>None\<close> stands for \<^verbatim>\<open>ValueError\<close>.
\<close>

record pylib =
  fromisoformat :: "string \<Rightarrow> datetime option"
  float_of_str :: "string \<Rightarrow> pyfloat option"
  int_of_str :: "string \<Rightarrow> int option"

text \<open>
  The conversion of an int to a float. The magnitude is rounded to 53 significant bits,
  a tie going to the even neighbour; a result of \<open>2 ^ 1024\<close> or more is out of the range
  of the doubles and the conversion raises OverflowError (\<open>None\<close>).
\<close>

fun bitlen :: "nat \<Rightarrow> nat" where
  "bitlen n = (if n = 0 then 0 else Suc (bitlen (n div 2)))"

declare bitlen.simps [simp del]

definition round_double :: "nat \<Rightarrow> nat" where
  "round_double m =
     (let e = bitlen m - 53 in
      if e = 0 then m
      else
        let q = m div 2 ^ e; r = m mod 2 ^ e; h = 2 ^ (e - 1)
        in (if r < h \<or> (r = h \<and> even q) then q else q + 1) * 2 ^ e)"

definition float_of_int :: "int \<Rightarrow> pyfloat option" where
  "float_of_int n =
     (let m = round_double (nat \<bar>n\<bar>) in
      if 2 ^ 1024 \<le> m then None
      else Some (Fin (if n < 0 then - real m else real m)))"

text \<open>\<^verbatim>\<open>float(x)\<close>.\<close>

fun py_float :: "pylib \<Rightarrow> json \<Rightarrow> error + pyfloat" where
  "py_float L JNull = Inl TypeError"
| "py_float L (JBool b) = Inr (Fin (if b then 1 else 0))"
| "py_float L (JInt n) =
     (case float_of_int n of None \<Rightarrow> Inl OverflowError | Some x \<Rightarrow> Inr x)"
| "py_float L (JFloat x) = Inr x"
| "py_float L (JStr s) = (case float_of_str L s of None \<Rightarrow> Inl ValueError | Some x \<Rightarrow> Inr x)"
| "py_float L (JArr xs) = Inl TypeError"
| "py_float L (JObj kvs) = Inl TypeError"

text \<open>
  \<^verbatim>\<open>int(x)\<close>: a finite float is truncated towards zero, an infinity raises
  OverflowError and a NaN raises ValueError.
\<close>

definition trunc :: "real \<Rightarrow> int" where
  "trunc x = (if 0 \<le> x then \<lfloor>x\<rfloor> else \<lceil>x\<rceil>)"

fun py_int :: "pylib \<Rightarrow> json \<Rightarrow> error + int" where
  "py_int L JNull = Inl TypeError"
| "py_int L (JBool b) = Inr (if b then 1 else 0)"
| "py_int L (JInt n) = Inr n"
| "py_int L (JFloat (Fin x)) = Inr (trunc x)"
| "py_int L (JFloat NegZero) = Inr 0"
| "py_int L (JFloat PosInf) = Inl OverflowError"
| "py_int L (JFloat NegInf) = Inl OverflowError"
| "py_int L (JFloat NaN) = Inl ValueError"
| "py_int L (JStr s) = (case int_of_str L s of None \<Rightarrow> Inl ValueError | Some n \<Rightarrow> Inr n)"
| "py_int L (JArr xs) = Inl TypeError"
| "py_int L (JObj kvs) = Inl TypeError"

subsection \<open>Formatting\<close>

definition digit :: "nat \<Rightarrow> char" where
  "digit n = char_of (48 + n)"

fun show_nat :: "nat \<Rightarrow> string" where
  "show_nat n = (if n < 10 then [digit n] else show_nat (n div 10) @ [digit (n mod 10)])"

declare show_nat.simps [simp del]

text \<open>\<^verbatim>\<open>%0wd\<close>: at least \<open>w\<close> digits, padded with zeros on the left.\<close>

definition pad :: "nat \<Rightarrow> nat \<Rightarrow> string" where
  "pad w n = replicate (w - length (show_nat n)) (CHR ''0'') @ show_nat n"

text \<open>Rounding to the nearest integer, ties to the even one.\<close>

definition round_half_even :: "real \<Rightarrow> int" where
  "round_half_even x =
     (let f = \<lfloor>x\<rfloor>; r = x - of_int f
      in if r < 1 / 2 then f else if 1 / 2 < r then f + 1 else if even f then f else f + 1)"

definition fixed0 :: "real \<Rightarrow> string" where
  "fixed0 x = (if x < 0 then ''-'' else []) @ show_nat (nat (round_half_even \<bar>x\<bar>))"

text \<open>A float under the format \<^verbatim>\<open>.0f\<close>.\<close>

fun fmt_float :: "pyfloat \<Rightarrow> string" where
  "fmt_float (Fin x) = fixed0 x"
| "fmt_float NegZero = ''-0''"
| "fmt_float PosInf = ''inf''"
| "fmt_float NegInf = ''-inf''"
| "fmt_float NaN = ''nan''"

text \<open>
  \<^verbatim>\<open>f"{x:.0f}"\<close>: a bool or an int is formatted as the float it converts to, and an
  int out of the range of the doubles raises OverflowError; \<^verbatim>\<open>None\<close>, a list and a dict
  refuse the format string (TypeError), a str refuses the code \<^verbatim>\<open>f\<close> (ValueError).
\<close>

fun fmt0f :: "json \<Rightarrow> error + string" where
  "fmt0f JNull = Inl TypeError"
| "fmt0f (JBool b) = Inr (if b then ''1'' else ''0'')"
| "fmt0f (JInt n) =
     (case float_of_int n of None \<Rightarrow> Inl OverflowError | Some x \<Rightarrow> Inr (fmt_float x))"
| "fmt0f (JFloat x) = Inr (fmt_float x)"
| "fmt0f (JStr s) = Inl ValueError"
| "fmt0f (JArr xs) = Inl TypeError"
| "fmt0f (JObj kvs) = Inl TypeError"

text \<open>\<^verbatim>\<open>date.isoformat()\<close>: \<^verbatim>\<open>%04d-%02d-%02d\<close>.\<close>

definition isoformat :: "date \<Rightarrow> string" where
  "isoformat d = pad 4 (year d) @ ''-'' @ pad 2 (month d) @ ''-'' @ pad 2 (day d)"

text \<open>\<^verbatim>\<open>strftime("%I:%M %p")\<close>: the 12-hour clock, zero padded, and AM or PM.\<close>

definition strftime_IMp :: "datetime \<Rightarrow> string" where
  "strftime_IMp dt =
     pad 2 (if hour dt mod 12 = 0 then 12 else hour dt mod 12) @ '':'' @ pad 2 (minute dt)
       @ '' '' @ (if hour dt < 12 then ''AM'' else ''PM'')"

text \<open>\<^verbatim>\<open>s.lstrip("0")\<close>.\<close>

definition lstrip0 :: "string \<Rightarrow> string" where
  "lstrip0 s = dropWhile (\<lambda>c. c = CHR ''0'') s"

text \<open>
  The day of the week, as \<^verbatim>\<open>date.weekday()\<close> computes it from the proleptic Gregorian
  ordinal (Monday is 0).
\<close>

definition is_leap :: "nat \<Rightarrow> bool" where
  "is_leap y = (y mod 4 = 0 \<and> (y mod 100 \<noteq> 0 \<or> y mod 400 = 0))"

definition days_in_month :: "nat \<Rightarrow> nat \<Rightarrow> nat" where
  "days_in_month y m =
     (if m = 2 then (if is_leap y then 29 else 28)
      else if m \<in> set [4, 6, 9, 11] then 30 else 31)"

definition days_before_year :: "nat \<Rightarrow> nat" where
  "days_before_year y =
     (let y1 = y - 1 in y1 * 365 + y1 div 4 - y1 div 100 + y1 div 400)"

definition days_before_month :: "nat \<Rightarrow> nat \<Rightarrow> nat" where
  "days_before_month y m = sum_list (map (days_in_month y) [1..<m])"

definition toordinal :: "date \<Rightarrow> nat" where
  "toordinal d = days_before_year (year d) + days_before_month (year d) (month d) + day d"

definition weekday :: "date \<Rightarrow> nat" where
  "weekday d = (toordinal d + 6) mod 7"

text \<open>\<^verbatim>\<open>strftime("%a")\<close> and \<^verbatim>\<open>strftime("%A")\<close>, in the C locale.\<close>

definition strftime_a :: "date \<Rightarrow> string" where
  "strftime_a d = [''Mon'', ''Tue'', ''Wed'', ''Thu'', ''Fri'', ''Sat'', ''Sun''] ! weekday d"

definition strftime_A :: "date \<Rightarrow> string" where
  "strftime_A d =
     [''Monday'', ''Tuesday'', ''Wednesday'', ''Thursday'', ''Friday'', ''Saturday'',
      ''Sunday''] ! weekday d"

text \<open>
  \<^verbatim>\<open>str.strip()\<close>: the white space among the first 256 code points, which is what a
  \<open>char\<close> holds.
\<close>

definition is_space :: "char \<Rightarrow> bool" where
  "is_space c = (of_char c \<in> set [9, 10, 11, 12, 13, 28, 29, 30, 31, 32, 133, 160 :: nat])"

definition strip :: "string \<Rightarrow> string" where
  "strip s = rev (dropWhile is_space (rev (dropWhile is_space s)))"

text \<open>
  \<^verbatim>\<open>str.title()\<close> on ASCII letters: a letter that follows no letter is upper case, any
  other letter is lower case.
\<close>

definition is_lower :: "char \<Rightarrow> bool" where
  "is_lower c = (97 \<le> (of_char c :: nat) \<and> (of_char c :: nat) \<le> 122)"

definition is_upper :: "char \<Rightarrow> bool" where
  "is_upper c = (65 \<le> (of_char c :: nat) \<and> (of_char c :: nat) \<le> 90)"

fun title_from :: "bool \<Rightarrow> string \<Rightarrow> string" where
  "title_from prev [] = []"
| "title_from prev (c # cs) =
     (if is_lower c
      then (if prev then c else char_of (of_char c - (32::nat))) # title_from True cs
      else if is_upper c
      then (if prev then char_of (of_char c + (32::nat)) else c) # title_from True cs
      else c # title_from False cs)"

definition title :: "string \<Rightarrow> string" where
  "title s = title_from False s"

text \<open>\<^verbatim>\<open>sep.join(parts)\<close> on strings.\<close>

fun join :: "string \<Rightarrow> string list \<Rightarrow> string" where
  "join sep [] = []"
| "join sep [p] = p"
| "join sep (p # q # ps) = p @ sep @ join sep (q # ps)"

section \<open>Weather codes\<close>

text \<open>
  \<^verbatim>\<open>WeatherApp._condition_from_code\<close>: the chain of early returns, in the source's
  order. Python's \<^verbatim>\<open>code in (1, 2, 3)\<close> is membership in a tuple.
\<close>

definition condition_from_code :: "int \<Rightarrow> string" where
  "condition_from_code code =
     (if code = 0 then ''clear''
      else if code \<in> set [1, 2, 3] then ''clouds''
      else if code \<in> set [45, 48] then ''fog''
      else if 51 \<le> code \<and> code \<le> 67 then (if code < 61 then ''drizzle'' else ''rain'')
      else if 71 \<le> code \<and> code \<le> 77 then ''snow''
      else if 80 \<le> code \<and> code \<le> 82 then ''showers''
      else if 95 \<le> code \<and> code \<le> 99 then ''storm''
      else ''default'')"

definition emoji_from_code :: "int \<Rightarrow> nat list" where
  \<comment> \<open>\<^verbatim>\<open>WeatherApp._emoji_from_code\<close>; an emoji is the list of its code points.\<close>
  "emoji_from_code code =
     (if code = 0 then [0x2600, 0xFE0F]
      else if code \<in> set [1, 2, 3] then [0x26C5, 0xFE0F]
      else if code \<in> set [45, 48] then [0x1F32B, 0xFE0F]
      else if 51 \<le> code \<and> code \<le> 67
      then (if code < 61 then [0x1F326, 0xFE0F] else [0x1F327, 0xFE0F])
      else if 71 \<le> code \<and> code \<le> 77 then [0x1F328, 0xFE0F]
      else if 80 \<le> code \<and> code \<le> 82 then [0x1F327, 0xFE0F]
      else if 95 \<le> code \<and> code \<le> 99 then [0x26C8, 0xFE0F]
      else [0x1F324, 0xFE0F])"

section \<open>The application state\<close>

text \<open>
  \<^verbatim>\<open>self.prefs\<close>, with the three keys the constructor gives it.
\<close>

record preferences =
  favorites :: "string list"
  last_city :: string
  unit_pref :: string

text \<open>What \<^verbatim>\<open>self.manager.get\<close> was asked for, and the message boxes shown.\<close>

datatype request = Geocode string | Forecast json json string string

datatype dialog = Information string string | Warning string string

record hourly_row =
  row_time :: string
  row_temp :: pyfloat
  row_precip :: pyfloat
  row_wind :: pyfloat

record daily_row =
  card_date :: string
  card_max :: pyfloat
  card_min :: pyfloat
  card_code :: int

text \<open>A card of the five-day strip: its three labels.\<close>

record card =
  label_date :: string
  label_icon :: "nat list"
  label_temps :: "string list"

text \<open>
  The fields of \<^verbatim>\<open>WeatherApp\<close> the handlers read and write. \<open>sent\<close>, \<open>dialogs\<close> and
  \<open>saved\<close> record, in order, the requests issued, the message boxes shown and the
  documents handed to \<^verbatim>\<open>_save_prefs\<close>. A label built by an f-string is kept as the
  list of the pieces interpolated into it.
\<close>

record app =
  prefs :: preferences
  saved :: "preferences list"
  city_edit :: string
  unit_box :: string
  fav_box :: "string list"
  fetch_btn :: bool
  header :: "string list"
  subheader :: "string list"
  icon_lbl :: "nat list"
  location_label :: string
  resolved_place :: "string option"
  model_rows :: "hourly_row list"
  spark_values :: "pyfloat list"
  spark_accent :: string
  daily_strip :: "card list"
  bg_palette :: string
  auto_timer :: bool
  sent :: "request list"
  dialogs :: "dialog list"

text \<open>Sequencing of computations that may raise.\<close>

definition andthen :: "error + 'a \<Rightarrow> ('a \<Rightarrow> error + 'b) \<Rightarrow> error + 'b" where
  "andthen m f = (case m of Inl e \<Rightarrow> Inl e | Inr x \<Rightarrow> f x)"

section \<open>Preferences and favorites\<close>

definition save_prefs :: "app \<Rightarrow> app" where
  "save_prefs s = s\<lparr>saved := saved s @ [prefs s]\<rparr>"

definition refresh_favorites :: "app \<Rightarrow> app" where
  "refresh_favorites s = s\<lparr>fav_box := favorites (prefs s)\<rparr>"

text \<open>\<^verbatim>\<open>WeatherApp._fav_add\<close>.\<close>

definition fav_add :: "app \<Rightarrow> app" where
  "fav_add s =
     (let c = strip (city_edit s) in
      if c = [] then s
      else let favs = favorites (prefs s) in
        if c \<notin> set favs
        then refresh_favorites (save_prefs (s\<lparr>prefs := (prefs s)\<lparr>favorites := favs @ [c]\<rparr>\<rparr>))
        else s)"

text \<open>
  \<^verbatim>\<open>WeatherApp._fav_remove\<close>; \<open>current\<close> is \<^verbatim>\<open>self.fav_box.currentText()\<close>.
  \<^verbatim>\<open>favs.remove(c)\<close> removes the first occurrence.
\<close>

definition fav_remove :: "string \<Rightarrow> app \<Rightarrow> app" where
  "fav_remove current s =
     (let c = strip current in
      if c = [] then s
      else let favs = favorites (prefs s) in
        if c \<in> set favs
        then refresh_favorites (save_prefs (s\<lparr>prefs := (prefs s)\<lparr>favorites := remove1 c favs\<rparr>\<rparr>))
        else s)"

section \<open>Requests and replies\<close>

definition endswith :: "string \<Rightarrow> string \<Rightarrow> bool" where
  "endswith s suf = (length suf \<le> length s \<and> drop (length s - length suf) s = suf)"

text \<open>\<^verbatim>\<open>WeatherApp.fetch\<close>.\<close>

definition fetch :: "app \<Rightarrow> app" where
  "fetch s =
     (let name = strip (city_edit s) in
      if name = []
      then s\<lparr>dialogs := dialogs s @ [Information ''Missing'' ''Please enter a city.'']\<rparr>
      else
        let s1 = s\<lparr>fetch_btn := False\<rparr>;
            s2 = s1\<lparr>prefs := (prefs s1)\<lparr>unit_pref :=
                   (if endswith (unit_box s1) ''F'' then ''F'' else ''C'')\<rparr>\<rparr>;
            s3 = save_prefs s2
        in s3\<lparr>sent := sent s3 @ [Geocode name]\<rparr>)"

text \<open>\<^verbatim>\<open>WeatherApp._fav_selected\<close>.\<close>

definition fav_selected :: "string \<Rightarrow> app \<Rightarrow> app" where
  "fav_selected name s = (if name = [] then s else fetch (s\<lparr>city_edit := name\<rparr>))"

text \<open>\<^verbatim>\<open>", ".join(...)\<close> raises TypeError on an item that is not a str.\<close>

fun str_items :: "json list \<Rightarrow> error + string list" where
  "str_items [] = Inr []"
| "str_items (JStr t # ps) = andthen (str_items ps) (\<lambda>ts. Inr (t # ts))"
| "str_items (p # ps) = Inl TypeError"

text \<open>
  \<^verbatim>\<open>WeatherApp._handle_geocode\<close>, from \<^verbatim>\<open>r0 = results[0]\<close> to the joined place name:
  nothing is written to \<^verbatim>\<open>self\<close> until all of it has been computed.
\<close>

definition first_match :: "json \<Rightarrow> error + json \<times> json \<times> string" where
  "first_match results =
     andthen (py_index results 0) (\<lambda>r0.
     andthen (py_item r0 ''latitude'') (\<lambda>lat.
     andthen (py_item r0 ''longitude'') (\<lambda>lon.
     andthen (py_get r0 ''name'' JNull) (\<lambda>p1.
     andthen (py_get r0 ''admin1'' JNull) (\<lambda>p2.
     andthen (py_get r0 ''country'' JNull) (\<lambda>p3.
     andthen (str_items (filter truthy [p1, p2, p3])) (\<lambda>ps.
     Inr (lat, lon, join '', '' ps))))))))"

text \<open>
  \<^verbatim>\<open>WeatherApp._handle_geocode\<close>. A handler returns the state it leaves and the
  exception it raised, if any.
\<close>

definition handle_geocode :: "json \<Rightarrow> app \<Rightarrow> app \<times> error option" where
  "handle_geocode payload s =
     (case py_get payload ''results'' JNull of
        Inl e \<Rightarrow> (s, Some e)
      | Inr got \<Rightarrow>
          let results = py_or got (JArr []) in
          if \<not> truthy results
          then (s\<lparr>dialogs := dialogs s @ [Warning ''Not found'' ''City not found.''],
                  fetch_btn := True\<rparr>, None)
          else
            (case first_match results of
               Inl e \<Rightarrow> (s, Some e)
             | Inr (lat, lon, place) \<Rightarrow>
                 let s1 = s\<lparr>resolved_place := Some place\<rparr>;
                     tunit = (if unit_pref (prefs s1) = ''F'' then ''fahrenheit'' else ''celsius'');
                     wunit = (if tunit = ''fahrenheit'' then ''mph'' else ''kmh'')
                 in (s1\<lparr>sent := sent s1 @ [Forecast lat lon tunit wunit]\<rparr>, None)))"

section \<open>The forecast handler\<close>

text \<open>
  \<^verbatim>\<open>WeatherApp._handle_forecast\<close>, lines 268 to 274: the three blocks, each replaced by
  an empty dict when it is missing or falsy, and the current temperature, wind speed and
  weather code with their defaults.
\<close>

definition forecast_blocks ::
  "pylib \<Rightarrow> json \<Rightarrow> error + json \<times> json \<times> json \<times> json \<times> int" where
  "forecast_blocks L payload =
     andthen (py_get payload ''current_weather'' JNull) (\<lambda>c.
     andthen (py_get payload ''hourly'' JNull) (\<lambda>h.
     andthen (py_get payload ''daily'' JNull) (\<lambda>d.
     let current = py_or c (JObj []); hourly = py_or h (JObj []); daily = py_or d (JObj []) in
     andthen (py_get current ''temperature'' (JFloat (Fin 0))) (\<lambda>temp.
     andthen (py_get current ''windspeed'' (JFloat (Fin 0))) (\<lambda>wind.
     andthen (py_get current ''weathercode'' (JInt 0)) (\<lambda>wc.
     andthen (py_int L wc) (\<lambda>code.
     Inr (hourly, daily, temp, wind, code))))))))"

text \<open>\<^verbatim>\<open>float(xs[i]) if i < len(xs) else 0.0\<close>.\<close>

definition float_at :: "pylib \<Rightarrow> json \<Rightarrow> nat \<Rightarrow> error + pyfloat" where
  "float_at L xs i =
     andthen (py_len xs) (\<lambda>n.
     if i < n then andthen (py_index xs i) (py_float L) else Inr (Fin 0))"

text \<open>\<^verbatim>\<open>float(xs[i] or 0.0) if i < len(xs) else 0.0\<close>.\<close>

definition float_or0_at :: "pylib \<Rightarrow> json \<Rightarrow> nat \<Rightarrow> error + pyfloat" where
  "float_or0_at L xs i =
     andthen (py_len xs) (\<lambda>n.
     if i < n then andthen (py_index xs i) (\<lambda>v. py_float L (py_or v (JFloat (Fin 0))))
     else Inr (Fin 0))"

text \<open>\<^verbatim>\<open>int(xs[i]) if i < len(xs) else 0\<close>.\<close>

definition int_at :: "pylib \<Rightarrow> json \<Rightarrow> nat \<Rightarrow> error + int" where
  "int_at L xs i =
     andthen (py_len xs) (\<lambda>n.
     if i < n then andthen (py_index xs i) (py_int L) else Inr 0)"

text \<open>
  \<^verbatim>\<open>datetime.fromisoformat(t)\<close> under \<^verbatim>\<open>try ... except Exception: continue\<close>: the
  TypeError on a value that is not a str and the ValueError on a string that does not
  parse are both swallowed.
\<close>

definition try_fromisoformat :: "pylib \<Rightarrow> json \<Rightarrow> datetime option" where
  "try_fromisoformat L t = (case t of JStr s \<Rightarrow> fromisoformat L s | _ \<Rightarrow> None)"

text \<open>\<^verbatim>\<open>datetime.fromisoformat(t)\<close> outside any \<^verbatim>\<open>try\<close>.\<close>

definition raising_fromisoformat :: "pylib \<Rightarrow> json \<Rightarrow> error + datetime" where
  "raising_fromisoformat L t =
     (case t of
        JStr s \<Rightarrow> (case fromisoformat L s of None \<Rightarrow> Inl ValueError | Some dt \<Rightarrow> Inr dt)
      | _ \<Rightarrow> Inl TypeError)"

text \<open>
  One pass of the loop over \<^verbatim>\<open>enumerate(times)\<close> (lines 291 to 304): \<open>None\<close> when the
  entry is skipped by a \<^verbatim>\<open>continue\<close>, otherwise the row appended and what is appended to
  \<^verbatim>\<open>spark_vals\<close>.
\<close>

definition hourly_entry ::
  "pylib \<Rightarrow> date \<Rightarrow> json \<Rightarrow> json \<Rightarrow> json \<Rightarrow> nat \<Rightarrow> json
     \<Rightarrow> error + (hourly_row \<times> pyfloat list) option" where
  "hourly_entry L today temps precs winds i t =
     (case try_fromisoformat L t of
        None \<Rightarrow> Inr None
      | Some dt \<Rightarrow>
          if isoformat (on_date dt) \<noteq> isoformat today then Inr None
          else
            andthen (float_at L temps i) (\<lambda>temp.
            andthen (float_or0_at L precs i) (\<lambda>precip.
            andthen (float_at L winds i) (\<lambda>wind.
            andthen (py_len temps) (\<lambda>n.
            andthen (if i < n
                     then andthen (py_index temps i) (\<lambda>v.
                          andthen (py_float L v) (\<lambda>x. Inr [x]))
                     else Inr []) (\<lambda>spark.
            Inr (Some (\<lparr>row_time = lstrip0 (strftime_IMp dt), row_temp = temp,
                        row_precip = precip, row_wind = wind\<rparr>, spark))))))))"

fun hourly_loop ::
  "pylib \<Rightarrow> date \<Rightarrow> json \<Rightarrow> json \<Rightarrow> json \<Rightarrow> (nat \<times> json) list
     \<Rightarrow> hourly_row list \<times> pyfloat list
     \<Rightarrow> error + hourly_row list \<times> pyfloat list" where
  "hourly_loop L today temps precs winds [] acc = Inr acc"
| "hourly_loop L today temps precs winds ((i, t) # its) (rows, spark_vals) =
     (case hourly_entry L today temps precs winds i t of
        Inl e \<Rightarrow> Inl e
      | Inr None \<Rightarrow> hourly_loop L today temps precs winds its (rows, spark_vals)
      | Inr (Some (r, spark)) \<Rightarrow>
          hourly_loop L today temps precs winds its (rows @ [r], spark_vals @ spark))"

text \<open>Lines 283 to 304: the rows of today and \<^verbatim>\<open>spark_vals\<close>.\<close>

definition hourly_rows ::
  "pylib \<Rightarrow> date \<Rightarrow> json \<Rightarrow> error + hourly_row list \<times> pyfloat list" where
  "hourly_rows L today hourly =
     andthen (py_get hourly ''time'' (JArr [])) (\<lambda>times.
     andthen (py_get hourly ''temperature_2m'' (JArr [])) (\<lambda>temps.
     andthen (py_get hourly ''precipitation_probability'' (JArr [])) (\<lambda>precs.
     andthen (py_get hourly ''windspeed_10m'' (JArr [])) (\<lambda>winds.
     andthen (py_iter times) (\<lambda>ts.
     hourly_loop L today temps precs winds (enumerate0 ts) ([], []))))))"

text \<open>\<^verbatim>\<open>Sparkline.set_points\<close>: the values kept for drawing.\<close>

definition set_points :: "pyfloat list \<Rightarrow> pyfloat list" where
  "set_points y_values = (if y_values \<noteq> [] then y_values else [])"

text \<open>The argument of \<^verbatim>\<open>set_points\<close> on line 307.\<close>

definition trend :: "hourly_row list \<Rightarrow> pyfloat list \<Rightarrow> pyfloat list" where
  "trend rows spark_vals = (if rows \<noteq> [] then map row_temp rows else spark_vals)"

text \<open>One pass of the loop over \<^verbatim>\<open>range(min(5, len(d_dates)))\<close> (lines 316 to 321).\<close>

definition daily_entry ::
  "pylib \<Rightarrow> json \<Rightarrow> json \<Rightarrow> json \<Rightarrow> json \<Rightarrow> nat \<Rightarrow> error + daily_row" where
  "daily_entry L d_dates d_max d_min d_code i =
     andthen (py_index d_dates i) (\<lambda>t.
     andthen (raising_fromisoformat L t) (\<lambda>dt.
     andthen (float_at L d_max i) (\<lambda>mx.
     andthen (float_at L d_min i) (\<lambda>mn.
     andthen (int_at L d_code i) (\<lambda>code.
     Inr \<lparr>card_date = strftime_a (on_date dt), card_max = mx, card_min = mn,
          card_code = code\<rparr>)))))"

fun daily_loop ::
  "pylib \<Rightarrow> json \<Rightarrow> json \<Rightarrow> json \<Rightarrow> json \<Rightarrow> nat list \<Rightarrow> daily_row list
     \<Rightarrow> error + daily_row list" where
  "daily_loop L d_dates d_max d_min d_code [] rows_daily = Inr rows_daily"
| "daily_loop L d_dates d_max d_min d_code (i # is) rows_daily =
     (case daily_entry L d_dates d_max d_min d_code i of
        Inl e \<Rightarrow> Inl e
      | Inr r \<Rightarrow> daily_loop L d_dates d_max d_min d_code is (rows_daily @ [r]))"

text \<open>Lines 310 to 321: \<^verbatim>\<open>rows_daily\<close>.\<close>

definition daily_rows :: "pylib \<Rightarrow> json \<Rightarrow> error + daily_row list" where
  "daily_rows L daily =
     andthen (py_get daily ''time'' (JArr [])) (\<lambda>d_dates.
     andthen (py_get daily ''temperature_2m_max'' (JArr [])) (\<lambda>d_max.
     andthen (py_get daily ''temperature_2m_min'' (JArr [])) (\<lambda>d_min.
     andthen (py_get daily ''weathercode'' (JArr [])) (\<lambda>d_code.
     andthen (py_len d_dates) (\<lambda>n.
     daily_loop L d_dates d_max d_min d_code [0..<min 5 n] [])))))"

text \<open>\<^verbatim>\<open>WeatherApp._fill_daily_strip\<close>: one card for each row, in order.\<close>

definition fill_daily_strip :: "daily_row list \<Rightarrow> app \<Rightarrow> app" where
  "fill_daily_strip rows_daily s =
     s\<lparr>daily_strip :=
         map (\<lambda>d. \<lparr>label_date = card_date d, label_icon = emoji_from_code (card_code d),
                    label_temps = [fmt_float (card_max d), fmt_float (card_min d)]\<rparr>) rows_daily\<rparr>"

text \<open>
  \<^verbatim>\<open>WeatherApp._apply_theme\<close>: the key of the palette painted (\<^verbatim>\<open>default\<close> for a
  condition the table lacks) and the accent \<^verbatim>\<open>Sparkline.set_theme\<close> picks.
\<close>

definition apply_theme :: "string \<Rightarrow> app \<Rightarrow> app" where
  "apply_theme condition s =
     s\<lparr>bg_palette :=
         (if condition \<in> set [''clear'', ''clouds'', ''rain'', ''drizzle'', ''snow'', ''fog'',
                               ''showers'', ''storm'', ''default'']
          then condition else ''default''),
       spark_accent :=
         (if condition \<in> set [''clear'', ''clouds''] then ''#5aa0ff'' else ''#6ec3ff'')\<rparr>"

text \<open>
  \<^verbatim>\<open>WeatherApp._handle_forecast\<close>; \<open>today\<close> is \<^verbatim>\<open>date.today()\<close>. The widgets are written
  in the source's order, so that an exception leaves behind exactly what had been
  written before it.
\<close>

definition handle_forecast :: "pylib \<Rightarrow> date \<Rightarrow> json \<Rightarrow> app \<Rightarrow> app \<times> error option" where
  "handle_forecast L today payload s =
     (case forecast_blocks L payload of
        Inl e \<Rightarrow> (s, Some e)
      | Inr (hourly, daily, temp, wind, code) \<Rightarrow>
     let cond = condition_from_code code; unit_letter = unit_pref (prefs s) in
     (case fmt0f temp of
        Inl e \<Rightarrow> (s, Some e)
      | Inr temp_text \<Rightarrow>
     let s1 = s\<lparr>header := [temp_text, unit_letter, title cond]\<rparr> in
     (case fmt0f wind of
        Inl e \<Rightarrow> (s1, Some e)
      | Inr wind_text \<Rightarrow>
     let s2 = s1\<lparr>subheader := [wind_text, if unit_letter = ''F'' then ''mph'' else ''km/h'',
                                 strftime_A today],
                 icon_lbl := emoji_from_code code\<rparr> in
     (case resolved_place s2 of
        None \<Rightarrow> (s2, Some AttributeError)
      | Some place \<Rightarrow>
     let s3 = s2\<lparr>location_label := place\<rparr> in
     (case hourly_rows L today hourly of
        Inl e \<Rightarrow> (s3, Some e)
      | Inr (rows, spark_vals) \<Rightarrow>
     let s4 = s3\<lparr>model_rows := rows, spark_values := set_points (trend rows spark_vals)\<rparr> in
     (case daily_rows L daily of
        Inl e \<Rightarrow> (s4, Some e)
      | Inr rows_daily \<Rightarrow>
     let s5 = fill_daily_strip rows_daily s4;
         s6 = apply_theme cond s5;
         s7 = s6\<lparr>fetch_btn := True, auto_timer := True\<rparr>;
         s8 = s7\<lparr>prefs := (prefs s7)\<lparr>last_city := strip (city_edit s7)\<rparr>\<rparr>
     in (save_prefs s8, None)))))))"

text \<open>
  \<^verbatim>\<open>WeatherApp._on_reply\<close>. A reply carries the kind its request was tagged with and
  its body as \<^verbatim>\<open>json.loads\<close> reads it, \<open>None\<close> when decoding or parsing raises.
\<close>

record reply =
  kind :: string
  body :: "json option"

definition on_reply :: "pylib \<Rightarrow> date \<Rightarrow> reply \<Rightarrow> app \<Rightarrow> app \<times> error option" where
  "on_reply L today r s =
     (let payload = (case body r of None \<Rightarrow> JObj [] | Some p \<Rightarrow> p) in
      if kind r = ''geocode'' then handle_geocode payload s
      else if kind r = ''forecast'' then handle_forecast L today payload s
      else (s, None))"

section \<open>An instance of the library and the state at start\<close>

text \<open>
  An instance of the library parameters for running the model on examples. It reads the
  two shapes of timestamp the forecast service sends, \<^verbatim>\<open>YYYY-MM-DD\<close> and
  \<^verbatim>\<open>YYYY-MM-DDTHH:MM\<close>, and numbers written as one to fifteen decimal digits, which a
  double holds exactly; on these it agrees with the Python library. It refuses every other string, some of which Python reads:
  the theorems below hold for every library, and only their examples use this one.
\<close>

definition number_of :: "string \<Rightarrow> nat option" where
  "number_of s =
     (if s \<noteq> [] \<and> list_all (\<lambda>c. 48 \<le> (of_char c :: nat) \<and> (of_char c :: nat) \<le> 57) s
      then Some (foldl (\<lambda>a c. 10 * a + (of_char c - 48)) 0 s) else None)"

definition iso_date :: "string \<Rightarrow> date option" where
  "iso_date s =
     (if length s = 10 \<and> s ! 4 = CHR ''-'' \<and> s ! 7 = CHR ''-''
      then (case (number_of (take 4 s), number_of (take 2 (drop 5 s)),
                  number_of (take 2 (drop 8 s))) of
              (Some y, Some m, Some d) \<Rightarrow>
                if 1 \<le> y \<and> 1 \<le> m \<and> m \<le> 12 \<and> 1 \<le> d \<and> d \<le> days_in_month y m
                then Some \<lparr>year = y, month = m, day = d\<rparr> else None
            | _ \<Rightarrow> None)
      else None)"

definition iso_datetime :: "string \<Rightarrow> datetime option" where
  "iso_datetime s =
     (if length s = 10
      then map_option (\<lambda>d. \<lparr>on_date = d, hour = 0, minute = 0\<rparr>) (iso_date s)
      else if length s = 16 \<and> s ! 10 = CHR ''T'' \<and> s ! 13 = CHR '':''
      then (case (iso_date (take 10 s), number_of (take 2 (drop 11 s)),
                  number_of (take 2 (drop 14 s))) of
              (Some d, Some h, Some m) \<Rightarrow>
                if h < 24 \<and> m < 60 then Some \<lparr>on_date = d, hour = h, minute = m\<rparr> else None
            | _ \<Rightarrow> None)
      else None)"

definition stdlib :: pylib where
  "stdlib = \<lparr>fromisoformat = iso_datetime,
             float_of_str =
               (\<lambda>s. if length s \<le> 15 then map_option (\<lambda>n. Fin (real n)) (number_of s)
                    else None),
             int_of_str =
               (\<lambda>s. if length s \<le> 15 then map_option int (number_of s) else None)\<rparr>"

text \<open>
  The state \<^verbatim>\<open>WeatherApp.__init__\<close> leaves, given the preferences \<^verbatim>\<open>_load_prefs\<close> ends
  with: no place resolved yet, no piece in the header (it shows a dash) and in the
  subheader, the default theme, the timer stopped.
\<close>

definition init :: "preferences \<Rightarrow> app" where
  "init p =
     \<lparr>prefs = p, saved = [], city_edit = last_city p,
      unit_box = (if unit_pref p = ''F'' then [char_of (176::nat), CHR ''F'']
                  else [char_of (176::nat), CHR ''C'']),
      fav_box = favorites p, fetch_btn = True, header = [], subheader = [],
      icon_lbl = [0x1F324, 0xFE0F], location_label = [], resolved_place = None,
      model_rows = [], spark_values = [], spark_accent = ''#6ec3ff'', daily_strip = [],
      bg_palette = ''default'', auto_timer = False, sent = [], dialogs = []\<rparr>"

definition defaults :: preferences where
  "defaults = \<lparr>favorites = [], last_city = [], unit_pref = ''F''\<rparr>"

section \<open>Conditions and examples\<close>

text \<open>
  A key of a dict is absent when the dict has no value for it or a falsy one: these are
  the cases in which \<^verbatim>\<open>d.get(k) or default\<close> yields the default.
\<close>

definition absent :: "(string \<times> json) list \<Rightarrow> string \<Rightarrow> bool" where
  "absent kvs k = (case map_of kvs k of None \<Rightarrow> True | Some v \<Rightarrow> \<not> truthy v)"

text \<open>
  A geocode reply without a match: its body does not parse, or parses to a dict whose
  \<^verbatim>\<open>results\<close> are absent (an empty list among them).
\<close>

definition no_match :: "json option \<Rightarrow> bool" where
  "no_match b =
     (case b of None \<Rightarrow> True | Some (JObj kvs) \<Rightarrow> absent kvs ''results'' | Some _ \<Rightarrow> False)"

text \<open>
  A run used in the examples: on Monday 1 January 2024 the user submits Fort Myers and
  the geocoder answers with one match.
\<close>

definition new_year :: date where
  "new_year = \<lparr>year = 2024, month = 1, day = 1\<rparr>"

definition fort_myers :: json where
  "fort_myers =
     JObj [(''results'', JArr [JObj [(''latitude'', JFloat (Fin 26.64)),
       (''longitude'', JFloat (Fin (- 81.87))), (''name'', JStr ''Fort Myers''),
       (''admin1'', JStr ''Florida''), (''country'', JStr ''United States'')]])]"

definition submitted :: app where
  "submitted = fetch ((init defaults)\<lparr>city_edit := ''Fort Myers''\<rparr>)"

definition located :: app where
  "located =
     fst (on_reply stdlib new_year \<lparr>kind = ''geocode'', body = Some fort_myers\<rparr> submitted)"

text \<open>A forecast whose hourly entries are all of 2 January 2024.\<close>

definition other_day :: json where
  "other_day =
     JObj [(''current_weather'',
             JObj [(''temperature'', JFloat (Fin 89)), (''windspeed'', JFloat (Fin 8)),
                   (''weathercode'', JInt 1)]),
           (''hourly'',
             JObj [(''time'', JArr [JStr ''2024-01-02T00:00'', JStr ''2024-01-02T01:00'']),
                   (''temperature_2m'', JArr [JFloat (Fin 5), JFloat (Fin 6)])])]"

text \<open>
  The arrays of a well-formed forecast hold numbers: ints within the range of the
  doubles, and floats. The service sends \<^verbatim>\<open>null\<close> for a precipitation probability it
  does not know. A weather code is an int or a finite float.
\<close>

definition is_number :: "json \<Rightarrow> bool" where
  "is_number v =
     (case v of JInt n \<Rightarrow> float_of_int n \<noteq> None | JFloat x \<Rightarrow> True | _ \<Rightarrow> False)"

definition number_or_null :: "json \<Rightarrow> bool" where
  "number_or_null v = (is_number v \<or> v = JNull)"

definition is_whole :: "json \<Rightarrow> bool" where
  "is_whole v =
     (case v of JInt n \<Rightarrow> True | JFloat (Fin x) \<Rightarrow> True | JFloat NegZero \<Rightarrow> True
      | _ \<Rightarrow> False)"

text \<open>
  The float a number stands for, the float shown for a precipitation (0.0 for
  \<^verbatim>\<open>null\<close> and for a zero) and the int a weather code stands for.
\<close>

definition number :: "json \<Rightarrow> pyfloat" where
  "number v =
     (case v of
        JInt n \<Rightarrow> (case float_of_int n of None \<Rightarrow> Fin 0 | Some x \<Rightarrow> x)
      | JFloat x \<Rightarrow> x
      | _ \<Rightarrow> Fin 0)"

definition number_or0 :: "json \<Rightarrow> pyfloat" where
  "number_or0 v = (if truthy v then number v else Fin 0)"

definition whole :: "json \<Rightarrow> int" where
  "whole v = (case v of JInt n \<Rightarrow> n | JFloat (Fin x) \<Rightarrow> trunc x | _ \<Rightarrow> 0)"

text \<open>The value at an index of an array, 0.0 or 0 past its end.\<close>

definition at_or0 :: "json list \<Rightarrow> nat \<Rightarrow> pyfloat" where
  "at_or0 xs i = (if i < length xs then number (xs ! i) else Fin 0)"

definition prec_at :: "json list \<Rightarrow> nat \<Rightarrow> pyfloat" where
  "prec_at xs i = (if i < length xs then number_or0 (xs ! i) else Fin 0)"

definition code_at :: "json list \<Rightarrow> nat \<Rightarrow> int" where
  "code_at xs i = (if i < length xs then whole (xs ! i) else 0)"

text \<open>
  A timestamp parses, and is of the day \<open>today\<close>: it parses and its date has the ISO
  form of \<open>today\<close>, which is how line 296 compares dates.
\<close>

definition parses :: "pylib \<Rightarrow> json \<Rightarrow> bool" where
  "parses L t = (case try_fromisoformat L t of None \<Rightarrow> False | Some dt \<Rightarrow> True)"

definition of_day :: "pylib \<Rightarrow> date \<Rightarrow> json \<Rightarrow> bool" where
  "of_day L today t =
     (case try_fromisoformat L t of
        None \<Rightarrow> False
      | Some dt \<Rightarrow> isoformat (on_date dt) = isoformat today)"

text \<open>The clock label and the weekday label of a timestamp that parses.\<close>

definition clock :: "pylib \<Rightarrow> json \<Rightarrow> string" where
  "clock L t =
     (case try_fromisoformat L t of None \<Rightarrow> [] | Some dt \<Rightarrow> lstrip0 (strftime_IMp dt))"

definition card_day :: "pylib \<Rightarrow> json \<Rightarrow> string" where
  "card_day L t =
     (case try_fromisoformat L t of None \<Rightarrow> [] | Some dt \<Rightarrow> strftime_a (on_date dt))"

text \<open>
  The hourly row expected for the entry \<open>(i, t)\<close> of \<^verbatim>\<open>enumerate(times)\<close>, and the daily
  row and the card expected for the index \<open>i\<close>.
\<close>

definition row_at ::
  "pylib \<Rightarrow> json list \<Rightarrow> json list \<Rightarrow> json list \<Rightarrow> nat \<times> json \<Rightarrow> hourly_row" where
  "row_at L temps precs winds it =
     \<lparr>row_time = clock L (snd it), row_temp = at_or0 temps (fst it),
      row_precip = prec_at precs (fst it), row_wind = at_or0 winds (fst it)\<rparr>"

definition daily_at ::
  "pylib \<Rightarrow> json list \<Rightarrow> json list \<Rightarrow> json list \<Rightarrow> json list \<Rightarrow> nat \<Rightarrow> daily_row" where
  "daily_at L ds mx mn cd i =
     \<lparr>card_date = card_day L (ds ! i), card_max = at_or0 mx i, card_min = at_or0 mn i,
      card_code = code_at cd i\<rparr>"

definition card_at ::
  "pylib \<Rightarrow> json list \<Rightarrow> json list \<Rightarrow> json list \<Rightarrow> json list \<Rightarrow> nat \<Rightarrow> card" where
  "card_at L ds mx mn cd i =
     \<lparr>label_date = card_day L (ds ! i), label_icon = emoji_from_code (code_at cd i),
      label_temps = [fmt_float (at_or0 mx i), fmt_float (at_or0 mn i)]\<rparr>"

text \<open>
  Hourly blocks: one over three days, and one of five hours of 1 January 2024 with
  three temperatures. Daily blocks: a week with three maxima, and one whose second date
  is no date.
\<close>

definition two_days :: json where
  "two_days =
     JObj [(''time'', JArr [JStr ''2023-12-31T23:00'', JStr ''2024-01-01T00:00'',
                            JStr ''2024-01-01T13:00'', JStr ''2024-01-02T00:00'']),
           (''temperature_2m'', JArr [JFloat (Fin 50), JFloat (Fin 51), JInt 52, JFloat (Fin 53)]),
           (''precipitation_probability'', JArr [JNull, JInt 10, JInt 20]),
           (''windspeed_10m'', JArr [JFloat (Fin 5), JFloat (Fin 6), JFloat (Fin 7), JFloat (Fin 8)])]"

definition five_hours :: json where
  "five_hours =
     JObj [(''time'', JArr [JStr ''2024-01-01T00:00'', JStr ''2024-01-01T01:00'',
                            JStr ''2024-01-01T02:00'', JStr ''2024-01-01T03:00'',
                            JStr ''2024-01-01T04:00'']),
           (''temperature_2m'', JArr [JFloat (Fin 61), JFloat (Fin 62), JFloat (Fin 63)])]"

definition week :: json where
  "week =
     JObj [(''time'', JArr [JStr ''2024-01-01'', JStr ''2024-01-02'', JStr ''2024-01-03'',
                            JStr ''2024-01-04'', JStr ''2024-01-05'', JStr ''2024-01-06'',
                            JStr ''2024-01-07'']),
           (''temperature_2m_max'', JArr [JFloat (Fin 80), JFloat (Fin 81), JFloat (Fin 82)]),
           (''temperature_2m_min'', JArr [JFloat (Fin 60), JFloat (Fin 61), JFloat (Fin 62), JFloat (Fin 63),
                                          JFloat (Fin 64), JFloat (Fin 65), JFloat (Fin 66)]),
           (''weathercode'', JArr [JInt 0, JInt 1, JInt 2, JInt 3, JInt 45, JInt 48, JInt 51])]"

definition no_date :: json where
  "no_date = JObj [(''time'', JArr [JStr ''2024-01-01'', JStr ''tomorrow''])]"


text \<open>A state with one favorite, and its name typed between blanks.\<close>

definition with_paris :: app where
  "with_paris =
     (init \<lparr>favorites = [''Paris''], last_city = [], unit_pref = ''F''\<rparr>)
       \<lparr>city_edit := '' Paris ''\<rparr>"

text \<open>
  The forecast of the run of the examples: 89 degrees, wind 8, partly cloudy, with the
  hourly block over three days and the daily block of a week.
\<close>

definition fort_myers_forecast :: json where
  "fort_myers_forecast =
     JObj [(''current_weather'',
             JObj [(''temperature'', JFloat (Fin 89)), (''windspeed'', JFloat (Fin 8)),
                   (''weathercode'', JInt 1)]),
           (''hourly'', two_days), (''daily'', week)]"

text \<open>
  Dates within the range of the calendar (years below 10000): on these the ISO form
  has ten characters.
\<close>

definition in_calendar :: "date \<Rightarrow> bool" where
  "in_calendar d = (year d < 10000 \<and> month d < 100 \<and> day d < 100)"

section \<open>Properties\<close>

subsection \<open>Facts about formatting\<close>

lemma show_nat_digit: "n < 10 \<Longrightarrow> show_nat n = [digit n]"
  by (simp add: show_nat.simps)

lemma digit_chars:
  "digit 0 = CHR ''0''" "digit (Suc 0) = CHR ''1''" "digit 2 = CHR ''2''" "digit 3 = CHR ''3''"
  "digit 4 = CHR ''4''" "digit 5 = CHR ''5''" "digit 6 = CHR ''6''" "digit 7 = CHR ''7''"
  "digit 8 = CHR ''8''" "digit 9 = CHR ''9''"
  by (simp_all add: digit_def char_of_eq_iff)

lemma show_nat2:
  assumes "10 \<le> n" "n < 100"
  shows "show_nat n = [digit (n div 10), digit (n mod 10)]"
proof -
  from assms have "\<not> n < 10" "n div 10 < 10" by simp_all
  then show ?thesis by (subst show_nat.simps) (simp add: show_nat_digit)
qed

lemma show_nat3:
  assumes "100 \<le> n" "n < 1000"
  shows "show_nat n = [digit (n div 100), digit (n div 10 mod 10), digit (n mod 10)]"
proof -
  from assms have a: "\<not> n < 10" "10 \<le> n div 10" "n div 10 < 100" by simp_all
  have b: "n div 10 div 10 = n div 100" by (simp add: div_mult2_eq [symmetric])
  from a(1) show ?thesis
    by (subst show_nat.simps) (simp add: show_nat2 [OF a(2,3)] b)
qed

lemma show_nat4:
  assumes "1000 \<le> n" "n < 10000"
  shows "show_nat n =
    [digit (n div 1000), digit (n div 100 mod 10), digit (n div 10 mod 10), digit (n mod 10)]"
proof -
  from assms have a: "\<not> n < 10" "100 \<le> n div 10" "n div 10 < 1000" by simp_all
  have b: "n div 10 div 100 = n div 1000" "n div 10 div 10 = n div 100"
    by (simp_all add: div_mult2_eq [symmetric])
  from a(1) show ?thesis
    by (subst show_nat.simps) (simp add: show_nat3 [OF a(2,3)] b)
qed

lemma replicate_small:
  "replicate 3 x = [x, x, x]" "replicate 2 x = [x, x]"
  by (simp_all add: numeral_3_eq_3 numeral_2_eq_2)

lemma pad2: "n < 100 \<Longrightarrow> pad 2 n = [digit (n div 10), digit (n mod 10)]"
  by (cases "n < 10") (simp_all add: pad_def show_nat_digit show_nat2 digit_chars)

lemma pad4:
  assumes "n < 10000"
  shows "pad 4 n =
    [digit (n div 1000), digit (n div 100 mod 10), digit (n div 10 mod 10), digit (n mod 10)]"
proof -
  consider "n < 10" | "10 \<le> n" "n < 100" | "100 \<le> n" "n < 1000" | "1000 \<le> n"
    by linarith
  then show ?thesis
  proof cases
    case 1
    then show ?thesis
      by (simp add: pad_def show_nat_digit digit_chars replicate_small)
  next
    case 2
    then have "n div 1000 = 0" "n div 100 = 0" by simp_all
    with 2 show ?thesis
      by (simp add: pad_def show_nat2 digit_chars replicate_small)
  next
    case 3
    then have "n div 1000 = 0" "n div 100 mod 10 = n div 100" by simp_all
    with 3 show ?thesis
      by (simp add: pad_def show_nat3 digit_chars replicate_small)
  next
    case 4
    with assms show ?thesis
      by (simp add: pad_def show_nat4)
  qed
qed

text \<open>
  On dates within the range of the calendar the ISO form determines the date, so the
  comparison of ISO forms on line 296 is the comparison of dates.
\<close>

lemma digit_inj: "a < 10 \<Longrightarrow> b < 10 \<Longrightarrow> digit a = digit b \<Longrightarrow> a = b"
  by (simp add: digit_def char_of_eq_iff take_bit_eq_mod)

lemma same_digits:
  fixes a b :: nat
  assumes "a div 10 = b div 10" "a mod 10 = b mod 10"
  shows "a = b"
proof -
  have "a = 10 * (a div 10) + a mod 10" by simp
  also have "\<dots> = 10 * (b div 10) + b mod 10" by (simp only: assms)
  also have "\<dots> = b" by simp
  finally show ?thesis .
qed

lemma pad2_inj:
  assumes "n < 100" "m < 100" "pad 2 n = pad 2 m"
  shows "n = m"
proof -
  from assms have "digit (n div 10) = digit (m div 10)" "digit (n mod 10) = digit (m mod 10)"
    by (simp_all add: pad2)
  with assms(1,2) have "n div 10 = m div 10" "n mod 10 = m mod 10"
    by (auto intro: digit_inj)
  then show ?thesis by (rule same_digits)
qed

lemma pad4_inj:
  assumes "n < 10000" "m < 10000" "pad 4 n = pad 4 m"
  shows "n = m"
proof -
  from assms have "digit (n div 1000) = digit (m div 1000)"
    "digit (n div 100 mod 10) = digit (m div 100 mod 10)"
    "digit (n div 10 mod 10) = digit (m div 10 mod 10)"
    "digit (n mod 10) = digit (m mod 10)"
    by (simp_all add: pad4)
  with assms(1,2) have d: "n div 1000 = m div 1000" "n div 100 mod 10 = m div 100 mod 10"
    "n div 10 mod 10 = m div 10 mod 10" "n mod 10 = m mod 10"
    by (auto intro: digit_inj)
  have t: "k div 10 div 10 = k div 100" "k div 100 div 10 = k div 1000" for k :: nat
    by (simp_all add: div_mult2_eq [symmetric])
  have "n div 100 = m div 100"
    by (rule same_digits) (simp_all add: t d)
  then have "n div 10 = m div 10"
    by - (rule same_digits, simp_all add: t d)
  with d(4) show ?thesis by - (rule same_digits)
qed

lemma pad_lengths: "n < 10000 \<Longrightarrow> length (pad 4 n) = 4" "m < 100 \<Longrightarrow> length (pad 2 m) = 2"
  by (simp_all add: pad2 pad4)

lemma isoformat_inj:
  assumes "in_calendar d" "in_calendar d'" "isoformat d = isoformat d'"
  shows "d = d'"
proof -
  from assms(1,2) have b: "year d < 10000" "month d < 100" "day d < 100"
    "year d' < 10000" "month d' < 100" "day d' < 100"
    by (simp_all add: in_calendar_def)
  from assms(3) b have "pad 4 (year d) = pad 4 (year d')" "pad 2 (month d) = pad 2 (month d')"
    "pad 2 (day d) = pad 2 (day d')"
    by (simp_all add: isoformat_def pad_lengths)
  with b have "year d = year d'" "month d = month d'" "day d = day d'"
    by (auto intro: pad2_inj pad4_inj)
  then show ?thesis by simp
qed

lemma of_day_same_date:
  assumes "try_fromisoformat L t = Some dt" "in_calendar (on_date dt)" "in_calendar today"
  shows "of_day L today t \<longleftrightarrow> on_date dt = today"
  using assms by (auto simp: of_day_def dest: isoformat_inj)

lemma fixed0_zero: "fixed0 0 = ''0''"
  by (simp add: fixed0_def round_half_even_def show_nat_digit digit_chars)

lemma fixed0_89: "fixed0 89 = ''89''"
  by (simp add: fixed0_def round_half_even_def show_nat2 digit_chars)

lemma fixed0_8: "fixed0 8 = ''8''"
  by (simp add: fixed0_def round_half_even_def show_nat_digit digit_chars)

lemma title_clear: "title ''clear'' = ''Clear''"
  by (simp add: title_def is_lower_def is_upper_def char_of_eq_iff)

lemma title_clouds: "title ''clouds'' = ''Clouds''"
  by (simp add: title_def is_lower_def is_upper_def char_of_eq_iff)

lemma strip_fort_myers: "strip ''Fort Myers'' = ''Fort Myers''"
  by (simp add: strip_def is_space_def)

lemma get_absent:
  "absent kvs k \<Longrightarrow> py_or (case map_of kvs k of None \<Rightarrow> JNull | Some v \<Rightarrow> v) d = d"
  by (simp add: absent_def py_or_def split: option.splits)

subsection \<open>The library instance on the timestamps of the examples\<close>

lemma iso_parse:
  "iso_datetime ''2023-12-31T23:00'' =
     Some \<lparr>on_date = \<lparr>year = 2023, month = 12, day = 31\<rparr>, hour = 23, minute = 0\<rparr>"
  "iso_datetime ''2024-01-01T00:00'' =
     Some \<lparr>on_date = \<lparr>year = 2024, month = 1, day = 1\<rparr>, hour = 0, minute = 0\<rparr>"
  "iso_datetime ''2024-01-01T01:00'' =
     Some \<lparr>on_date = \<lparr>year = 2024, month = 1, day = 1\<rparr>, hour = 1, minute = 0\<rparr>"
  "iso_datetime ''2024-01-01T02:00'' =
     Some \<lparr>on_date = \<lparr>year = 2024, month = 1, day = 1\<rparr>, hour = 2, minute = 0\<rparr>"
  "iso_datetime ''2024-01-01T03:00'' =
     Some \<lparr>on_date = \<lparr>year = 2024, month = 1, day = 1\<rparr>, hour = 3, minute = 0\<rparr>"
  "iso_datetime ''2024-01-01T04:00'' =
     Some \<lparr>on_date = \<lparr>year = 2024, month = 1, day = 1\<rparr>, hour = 4, minute = 0\<rparr>"
  "iso_datetime ''2024-01-01T13:00'' =
     Some \<lparr>on_date = \<lparr>year = 2024, month = 1, day = 1\<rparr>, hour = 13, minute = 0\<rparr>"
  "iso_datetime ''2024-01-02T00:00'' =
     Some \<lparr>on_date = \<lparr>year = 2024, month = 1, day = 2\<rparr>, hour = 0, minute = 0\<rparr>"
  "iso_datetime ''2024-01-02T01:00'' =
     Some \<lparr>on_date = \<lparr>year = 2024, month = 1, day = 2\<rparr>, hour = 1, minute = 0\<rparr>"
  by (simp_all add: iso_datetime_def iso_date_def number_of_def days_in_month_def)

lemma iso_parse_dates:
  "iso_datetime ''2024-01-01'' =
     Some \<lparr>on_date = \<lparr>year = 2024, month = 1, day = 1\<rparr>, hour = 0, minute = 0\<rparr>"
  "iso_datetime ''2024-01-02'' =
     Some \<lparr>on_date = \<lparr>year = 2024, month = 1, day = 2\<rparr>, hour = 0, minute = 0\<rparr>"
  "iso_datetime ''2024-01-03'' =
     Some \<lparr>on_date = \<lparr>year = 2024, month = 1, day = 3\<rparr>, hour = 0, minute = 0\<rparr>"
  "iso_datetime ''2024-01-04'' =
     Some \<lparr>on_date = \<lparr>year = 2024, month = 1, day = 4\<rparr>, hour = 0, minute = 0\<rparr>"
  "iso_datetime ''2024-01-05'' =
     Some \<lparr>on_date = \<lparr>year = 2024, month = 1, day = 5\<rparr>, hour = 0, minute = 0\<rparr>"
  "iso_datetime ''tomorrow'' = None"
  by (simp_all add: iso_datetime_def iso_date_def number_of_def days_in_month_def)

lemma of_day_examples:
  "of_day stdlib new_year (JStr ''2023-12-31T23:00'') = False"
  "of_day stdlib new_year (JStr ''2024-01-01T00:00'') = True"
  "of_day stdlib new_year (JStr ''2024-01-01T01:00'') = True"
  "of_day stdlib new_year (JStr ''2024-01-01T02:00'') = True"
  "of_day stdlib new_year (JStr ''2024-01-01T03:00'') = True"
  "of_day stdlib new_year (JStr ''2024-01-01T04:00'') = True"
  "of_day stdlib new_year (JStr ''2024-01-01T13:00'') = True"
  "of_day stdlib new_year (JStr ''2024-01-02T00:00'') = False"
  "of_day stdlib new_year (JStr ''2024-01-02T01:00'') = False"
  by (simp_all add: of_day_def try_fromisoformat_def stdlib_def iso_parse isoformat_def
      new_year_def pad2 pad4 digit_chars)

lemma clock_examples:
  "clock stdlib (JStr ''2024-01-01T00:00'') = ''12:00 AM''"
  "clock stdlib (JStr ''2024-01-01T01:00'') = ''1:00 AM''"
  "clock stdlib (JStr ''2024-01-01T02:00'') = ''2:00 AM''"
  "clock stdlib (JStr ''2024-01-01T03:00'') = ''3:00 AM''"
  "clock stdlib (JStr ''2024-01-01T04:00'') = ''4:00 AM''"
  "clock stdlib (JStr ''2024-01-01T13:00'') = ''1:00 PM''"
  by (simp_all add: clock_def try_fromisoformat_def stdlib_def iso_parse strftime_IMp_def
      lstrip0_def pad2 digit_chars)

lemma card_day_examples:
  "card_day stdlib (JStr ''2024-01-01'') = ''Mon''"
  "card_day stdlib (JStr ''2024-01-02'') = ''Tue''"
  "card_day stdlib (JStr ''2024-01-03'') = ''Wed''"
  "card_day stdlib (JStr ''2024-01-04'') = ''Thu''"
  "card_day stdlib (JStr ''2024-01-05'') = ''Fri''"
  by (simp_all add: card_day_def try_fromisoformat_def stdlib_def iso_parse_dates
      strftime_a_def weekday_def toordinal_def days_before_year_def days_before_month_def
      is_leap_def)

lemma parses_examples:
  "parses stdlib (JStr ''2024-01-01'')" "parses stdlib (JStr ''2024-01-02'')"
  "parses stdlib (JStr ''2024-01-03'')" "parses stdlib (JStr ''2024-01-04'')"
  "parses stdlib (JStr ''2024-01-05'')"
  by (simp_all add: parses_def try_fromisoformat_def stdlib_def iso_parse_dates)

lemma enumerate0_examples:
  "enumerate0 [a, b] = [(0, a), (1, b)]"
  "enumerate0 [a, b, c, d] = [(0, a), (1, b), (2, c), (3, d)]"
  "enumerate0 [a, b, c, d, e] = [(0, a), (1, b), (2, c), (3, d), (4, e)]"
  by (simp_all add: enumerate0_def upt_conv_Cons)

subsection \<open>The run of the examples\<close>

lemma submitted_eq:
  "submitted = (init defaults)\<lparr>city_edit := ''Fort Myers'', fetch_btn := False,
      saved := [defaults], sent := [Geocode ''Fort Myers'']\<rparr>"
  by (simp add: submitted_def fetch_def init_def defaults_def strip_fort_myers Let_def
      save_prefs_def endswith_def)

lemma first_match_named:
  assumes "n \<noteq> []" "a \<noteq> []" "c \<noteq> []"
  shows "first_match (JArr (JObj [(''latitude'', lat), (''longitude'', lon),
       (''name'', JStr n), (''admin1'', JStr a), (''country'', JStr c)] # rest))
   = Inr (lat, lon, n @ '', '' @ a @ '', '' @ c)"
  using assms by (simp add: first_match_def andthen_def)

lemma located_eq:
  "located = (init defaults)\<lparr>city_edit := ''Fort Myers'', fetch_btn := False,
      saved := [defaults], resolved_place := Some ''Fort Myers, Florida, United States'',
      sent := [Geocode ''Fort Myers'',
               Forecast (JFloat (Fin 26.64)) (JFloat (Fin (- 81.87))) ''fahrenheit'' ''mph'']\<rparr>"
  by (simp add: located_def on_reply_def handle_geocode_def fort_myers_def py_or_def
      first_match_named submitted_eq init_def defaults_def Let_def)

subsection \<open>What the forecast handler writes\<close>

text \<open>
  A handler that meets no exception writes every widget. Once the hourly loop has
  returned, the table and the sparkline are loaded, whatever the daily loop does.
\<close>

lemma handle_forecast_completes:
  assumes "forecast_blocks L payload = Inr (hourly, daily, temp, wind, code)"
    and "fmt0f temp = Inr temp_text" and "fmt0f wind = Inr wind_text"
    and "resolved_place s = Some place"
    and "hourly_rows L today hourly = Inr (rows, spark_vals)"
    and "daily_rows L daily = Inr rows_daily"
  shows "handle_forecast L today payload s =
    (save_prefs ((apply_theme (condition_from_code code) (fill_daily_strip rows_daily
       (s\<lparr>header := [temp_text, unit_pref (prefs s), title (condition_from_code code)],
          subheader := [wind_text, if unit_pref (prefs s) = ''F'' then ''mph'' else ''km/h'',
                        strftime_A today],
          icon_lbl := emoji_from_code code, location_label := place,
          model_rows := rows, spark_values := set_points (trend rows spark_vals)\<rparr>)))
       \<lparr>fetch_btn := True, auto_timer := True,
         prefs := (prefs s)\<lparr>last_city := strip (city_edit s)\<rparr>\<rparr>), None)"
  using assms
  by (simp add: handle_forecast_def Let_def fill_daily_strip_def apply_theme_def)



lemma handle_forecast_daily_raises_with:
  assumes "forecast_blocks L payload = Inr (hourly, daily, temp, wind, code)"
    and "fmt0f temp = Inr temp_text" and "fmt0f wind = Inr wind_text"
    and "resolved_place s = Some place"
    and "hourly_rows L today hourly = Inr (rows, spark_vals)"
    and "daily_rows L daily = Inl e"
  shows "snd (handle_forecast L today payload s) = Some e
       \<and> daily_strip (fst (handle_forecast L today payload s)) = daily_strip s"
  using assms by (simp add: handle_forecast_def Let_def)

lemma on_reply_forecast:
  "kind r = ''forecast'' \<Longrightarrow> body r = Some payload \<Longrightarrow>
   on_reply L today r s = handle_forecast L today payload s"
  by (simp add: on_reply_def)

lemma truthy_blocks: "truthy two_days" "truthy week"
  by (simp_all add: two_days_def week_def)

lemma fort_myers_blocks:
  "forecast_blocks stdlib fort_myers_forecast =
     Inr (two_days, week, JFloat (Fin 89), JFloat (Fin 8), 1)"
  by (simp add: forecast_blocks_def fort_myers_forecast_def andthen_def py_or_def Let_def
      truthy_blocks)

lemma fort_myers_shown:
  "fmt0f (JFloat (Fin 89)) = Inr ''89''" "fmt0f (JFloat (Fin 8)) = Inr ''8''"
  "fmt0f (JFloat (Fin 0)) = Inr ''0''"
  by (simp_all add: fixed0_89 fixed0_8 fixed0_zero)

lemma located_place: "resolved_place located = Some ''Fort Myers, Florida, United States''"
  by (simp add: located_eq)

subsection \<open>Missing blocks of a forecast\<close>

lemma forecast_blocks_absent:
  assumes "absent kvs ''current_weather''" "absent kvs ''hourly''" "absent kvs ''daily''"
  shows "forecast_blocks L (JObj kvs) = Inr (JObj [], JObj [], JFloat (Fin 0), JFloat (Fin 0), 0)"
  using assms by (simp add: forecast_blocks_def andthen_def get_absent Let_def)

lemma hourly_rows_no_block: "hourly_rows L today (JObj []) = Inr ([], [])"
  by (simp add: hourly_rows_def andthen_def enumerate0_def)

lemma daily_rows_no_block: "daily_rows L (JObj []) = Inr []"
  by (simp add: daily_rows_def andthen_def)

lemma handle_forecast_absent:
  assumes "absent kvs ''current_weather''" "absent kvs ''hourly''" "absent kvs ''daily''"
    and "resolved_place s = Some place"
  shows "handle_forecast L today (JObj kvs) s =
    (save_prefs (s\<lparr>header := [''0'', unit_pref (prefs s), ''Clear''],
        subheader := [''0'', if unit_pref (prefs s) = ''F'' then ''mph'' else ''km/h'',
                      strftime_A today],
        icon_lbl := emoji_from_code 0, location_label := place,
        model_rows := [], spark_values := [], daily_strip := [],
        bg_palette := ''clear'', spark_accent := ''#5aa0ff'',
        fetch_btn := True, auto_timer := True,
        prefs := (prefs s)\<lparr>last_city := strip (city_edit s)\<rparr>\<rparr>), None)"
  using assms(4)
  by (simp add: handle_forecast_def forecast_blocks_absent [OF assms(1-3)]
      hourly_rows_no_block daily_rows_no_block fixed0_zero title_clear
      set_points_def trend_def fill_daily_strip_def apply_theme_def
      condition_from_code_def Let_def)

text \<open>
  C2. A forecast reply whose body parses but lacks the expected blocks is said to end
  the run as a failure of kind MalformedData, shown once, and not to produce a view.
  The handler has no such failure: a block that is missing or falsy is replaced by an
  empty dict and every value it would hold by its default. So for every forecast reply
  whose body is a dict in which \<^verbatim>\<open>current_weather\<close>, \<^verbatim>\<open>hourly\<close> and \<^verbatim>\<open>daily\<close> are
  all absent, received after a place was resolved, the handler raises nothing, shows no
  message and leaves the view of a clear sky at 0 degrees with no hourly rows, an empty
  trend and no daily cards; the fetch button is enabled again, the timer runs and the
  city is saved as the last one.
\<close>

theorem missing_blocks_defaults:
  assumes "kind r = ''forecast''" and "body r = Some (JObj kvs)"
    and "absent kvs ''current_weather''" and "absent kvs ''hourly''" and "absent kvs ''daily''"
    and "resolved_place s = Some place"
  shows "on_reply L today r s =
    (save_prefs (s\<lparr>header := [''0'', unit_pref (prefs s), ''Clear''],
        subheader := [''0'', if unit_pref (prefs s) = ''F'' then ''mph'' else ''km/h'',
                      strftime_A today],
        icon_lbl := emoji_from_code 0, location_label := place,
        model_rows := [], spark_values := [], daily_strip := [],
        bg_palette := ''clear'', spark_accent := ''#5aa0ff'',
        fetch_btn := True, auto_timer := True,
        prefs := (prefs s)\<lparr>last_city := strip (city_edit s)\<rparr>\<rparr>), None)"
  using assms(1,2) handle_forecast_absent [OF assms(3-6)]
  by (simp add: on_reply_def)

text \<open>The theorem at a reply \<^verbatim>\<open>{"hourly": null}\<close> to the request for Fort Myers.\<close>

theorem missing_blocks_defaults_witness:
  "absent [(''hourly'', JNull)] ''current_weather'' \<and> absent [(''hourly'', JNull)] ''hourly''
   \<and> absent [(''hourly'', JNull)] ''daily''
   \<and> resolved_place located = Some ''Fort Myers, Florida, United States''
   \<and> snd (on_reply stdlib new_year
            \<lparr>kind = ''forecast'', body = Some (JObj [(''hourly'', JNull)])\<rparr> located) = None
   \<and> header (fst (on_reply stdlib new_year
            \<lparr>kind = ''forecast'', body = Some (JObj [(''hourly'', JNull)])\<rparr> located))
       = [''0'', ''F'', ''Clear'']"
proof -
  have a: "absent [(''hourly'', JNull)] ''current_weather''" by (simp add: absent_def)
  have b: "absent [(''hourly'', JNull)] ''hourly''" by (simp add: absent_def)
  have c: "absent [(''hourly'', JNull)] ''daily''" by (simp add: absent_def)
  have p: "resolved_place located = Some ''Fort Myers, Florida, United States''"
    by (simp add: located_eq)
  have u: "unit_pref (prefs located) = ''F''"
    by (simp add: located_eq init_def defaults_def)
  from missing_blocks_defaults
         [of "\<lparr>kind = ''forecast'', body = Some (JObj [(''hourly'', JNull)])\<rparr>"
             "[(''hourly'', JNull)]" located _ stdlib new_year, OF _ _ a b c p] a b c p u
  show ?thesis by (simp add: save_prefs_def)
qed

text \<open>
  The reply \<^verbatim>\<open>{}\<close> to the request for Fort Myers: no exception, no message box, and
  a complete view.
\<close>

theorem empty_forecast_is_ready:
  "(case on_reply stdlib new_year \<lparr>kind = ''forecast'', body = Some (JObj [])\<rparr> located of
      (s', raised) \<Rightarrow>
        raised = None \<and> dialogs s' = [] \<and> fetch_btn s' \<and> auto_timer s'
        \<and> header s' = [''0'', ''F'', ''Clear''] \<and> model_rows s' = [] \<and> daily_strip s' = []
        \<and> last_city (prefs s') = ''Fort Myers'')"
proof -
  have a: "absent [] k" for k by (simp add: absent_def)
  have p: "resolved_place located = Some ''Fort Myers, Florida, United States''"
    by (simp add: located_eq)
  have run: "on_reply stdlib new_year \<lparr>kind = ''forecast'', body = Some (JObj [])\<rparr> located =
      (save_prefs (located\<lparr>header := [''0'', unit_pref (prefs located), ''Clear''],
        subheader := [''0'', if unit_pref (prefs located) = ''F'' then ''mph'' else ''km/h'',
                      strftime_A new_year],
        icon_lbl := emoji_from_code 0,
        location_label := ''Fort Myers, Florida, United States'',
        model_rows := [], spark_values := [], daily_strip := [],
        bg_palette := ''clear'', spark_accent := ''#5aa0ff'',
        fetch_btn := True, auto_timer := True,
        prefs := (prefs located)\<lparr>last_city := strip (city_edit located)\<rparr>\<rparr>), None)"
    by (simp add: on_reply_def handle_forecast_absent [OF a a a p])
  show ?thesis
    unfolding run
    by (simp add: save_prefs_def located_eq init_def defaults_def strip_fort_myers)
qed

subsection \<open>Hourly rows of a well-formed block\<close>

lemma bitlen_le: "m < 2 ^ k \<Longrightarrow> bitlen m \<le> k"
proof (induction k arbitrary: m)
  case 0
  then show ?case by (simp add: bitlen.simps)
next
  case (Suc k)
  then have "m div 2 < 2 ^ k" by simp
  from Suc.IH [OF this] show ?case by (subst bitlen.simps) simp
qed

lemma round_double_small: "m < 2 ^ 53 \<Longrightarrow> round_double m = m"
  using bitlen_le [of m 53] by (simp add: round_double_def)

text \<open>An int of at most 53 bits converts to the float of the same value.\<close>

lemma float_of_int_small:
  assumes "\<bar>n\<bar> < 2 ^ 53"
  shows "float_of_int n = Some (Fin (of_int n))"
proof -
  from assms have m: "nat \<bar>n\<bar> < 2 ^ 53" by (simp add: nat_less_iff)
  have "(2::nat) ^ 53 < 2 ^ 1024" by (rule power_strict_increasing) simp_all
  with m have "\<not> (2::nat) ^ 1024 \<le> nat \<bar>n\<bar>" by linarith
  then show ?thesis
    by (simp add: float_of_int_def round_double_small [OF m] Let_def)
qed

lemma py_float_number: "is_number v \<Longrightarrow> py_float L v = Inr (number v)"
  by (cases v) (auto simp: is_number_def number_def)

lemma py_float_or0:
  "number_or_null v \<Longrightarrow> py_float L (py_or v (JFloat (Fin 0))) = Inr (number_or0 v)"
  by (cases v) (auto simp: number_or_null_def is_number_def number_def number_or0_def py_or_def)

lemma float_at_typed:
  "list_all is_number (take k xs) \<Longrightarrow> i < k \<Longrightarrow> float_at L (JArr xs) i = Inr (at_or0 xs i)"
  by (simp add: float_at_def andthen_def at_or0_def py_float_number list_all_length)

lemma float_at_all:
  "list_all is_number xs \<Longrightarrow> float_at L (JArr xs) i = Inr (at_or0 xs i)"
  by (simp add: float_at_def andthen_def at_or0_def py_float_number list_all_length)

lemma float_or0_at_all:
  "list_all number_or_null xs \<Longrightarrow> float_or0_at L (JArr xs) i = Inr (prec_at xs i)"
  by (simp add: float_or0_at_def andthen_def prec_at_def py_float_or0 list_all_length)

lemma hourly_entry_typed:
  assumes "list_all is_number temps" "list_all number_or_null precs" "list_all is_number winds"
  shows "hourly_entry L today (JArr temps) (JArr precs) (JArr winds) i t =
     Inr (if of_day L today t
          then Some (row_at L temps precs winds (i, t),
                     if i < length temps then [number (temps ! i)] else [])
          else None)"
  using assms
  by (simp add: hourly_entry_def of_day_def float_at_all float_or0_at_all andthen_def
      row_at_def clock_def py_float_number list_all_length at_or0_def split: option.splits)

lemma hourly_loop_typed:
  assumes "list_all is_number temps" "list_all number_or_null precs" "list_all is_number winds"
  shows "hourly_loop L today (JArr temps) (JArr precs) (JArr winds) its (rows, sv) =
     Inr (rows @ map (row_at L temps precs winds) (filter (\<lambda>it. of_day L today (snd it)) its),
          sv @ map (\<lambda>it. number (temps ! fst it))
                 (filter (\<lambda>it. of_day L today (snd it) \<and> fst it < length temps) its))"
proof (induction its arbitrary: rows sv)
  case Nil
  show ?case by simp
next
  case (Cons it its)
  obtain i t where it: "it = (i, t)" by (cases it)
  show ?case
    by (simp add: it hourly_entry_typed [OF assms] Cons.IH)
qed

lemma filter_snd_enumerate0:
  "map snd (filter (\<lambda>it. P (snd it)) (enumerate0 ts)) = filter P ts"
proof -
  have "length xs = length ys \<Longrightarrow>
        map snd (filter (\<lambda>it. P (snd it)) (zip xs ys)) = filter P ys" for xs :: "nat list" and ys
    by (induction xs ys rule: list_induct2) simp_all
  then show ?thesis by (simp add: enumerate0_def)
qed


text \<open>
  Whatever the arrays hold, when the hourly loop raises nothing its rows are those of
  the timestamps of today, one for each and in their order.
\<close>

lemma hourly_entry_kept:
  "hourly_entry L today temps precs winds i t = Inr (Some (r, sp)) \<Longrightarrow>
   of_day L today t \<and> row_time r = clock L t"
  by (auto simp: hourly_entry_def of_day_def clock_def andthen_def
      split: option.splits if_splits sum.splits)

lemma hourly_entry_skipped:
  "hourly_entry L today temps precs winds i t = Inr None \<Longrightarrow> \<not> of_day L today t"
  by (auto simp: hourly_entry_def of_day_def andthen_def
      split: option.splits if_splits sum.splits)

lemma hourly_loop_times:
  "hourly_loop L today temps precs winds its (rows, sv) = Inr (rows', sv') \<Longrightarrow>
   map row_time rows' =
     map row_time rows @ map (\<lambda>it. clock L (snd it)) (filter (\<lambda>it. of_day L today (snd it)) its)"
proof (induction its arbitrary: rows sv)
  case Nil
  then show ?case by simp
next
  case (Cons it its)
  obtain i t where it: "it = (i, t)" by (cases it)
  show ?case
  proof (cases "hourly_entry L today temps precs winds i t")
    case (Inl e)
    with Cons.prems it show ?thesis by simp
  next
    case (Inr res)
    show ?thesis
    proof (cases res)
      case None
      with Inr have "\<not> of_day L today t" by (simp add: hourly_entry_skipped)
      moreover from Cons.prems Inr None it
      have "hourly_loop L today temps precs winds its (rows, sv) = Inr (rows', sv')" by simp
      ultimately show ?thesis using Cons.IH it by simp
    next
      case (Some rs)
      obtain r sp where rs: "rs = (r, sp)" by (cases rs)
      from Inr Some rs have k: "of_day L today t" "row_time r = clock L t"
        by (auto dest: hourly_entry_kept)
      from Cons.prems Inr Some rs it
      have "hourly_loop L today temps precs winds its (rows @ [r], sv @ sp) = Inr (rows', sv')"
        by simp
      from Cons.IH [OF this] k it show ?thesis by simp
    qed
  qed
qed

lemma hourly_rows_times:
  assumes "hourly_rows L today hourly = Inr (rows, spark_vals)"
    and "py_get hourly ''time'' (JArr []) = Inr (JArr ts)"
  shows "map row_time rows = map (clock L) (filter (of_day L today) ts)"
proof -
  from assms obtain temps precs winds where
    "hourly_loop L today temps precs winds (enumerate0 ts) ([], []) = Inr (rows, spark_vals)"
    by (auto simp: hourly_rows_def andthen_def split: sum.splits)
  from hourly_loop_times [OF this]
  have "map row_time rows =
        map (clock L) (map snd (filter (\<lambda>it. of_day L today (snd it)) (enumerate0 ts)))"
    by (simp add: comp_def)
  then show ?thesis by (simp only: filter_snd_enumerate0)
qed

lemma hourly_rows_typed:
  assumes "py_get hourly ''time'' (JArr []) = Inr (JArr ts)"
    and "py_get hourly ''temperature_2m'' (JArr []) = Inr (JArr temps)"
    and "py_get hourly ''precipitation_probability'' (JArr []) = Inr (JArr precs)"
    and "py_get hourly ''windspeed_10m'' (JArr []) = Inr (JArr winds)"
    and "list_all is_number temps" and "list_all number_or_null precs"
    and "list_all is_number winds"
  shows "hourly_rows L today hourly =
     Inr (map (row_at L temps precs winds)
            (filter (\<lambda>it. of_day L today (snd it)) (enumerate0 ts)),
          map (\<lambda>it. number (temps ! fst it))
            (filter (\<lambda>it. of_day L today (snd it) \<and> fst it < length temps) (enumerate0 ts)))"
  using assms(1-4)
  by (simp add: hourly_rows_def andthen_def hourly_loop_typed [OF assms(5-7)])

lemma small_ints:
  "float_of_int 10 = Some (Fin 10)" "float_of_int 20 = Some (Fin 20)"
  "float_of_int 52 = Some (Fin 52)"
  by (simp_all add: float_of_int_small)

lemma two_days_rows:
  "hourly_rows stdlib new_year two_days =
     Inr ([\<lparr>row_time = ''12:00 AM'', row_temp = Fin 51, row_precip = Fin 10, row_wind = Fin 6\<rparr>,
           \<lparr>row_time = ''1:00 PM'', row_temp = Fin 52, row_precip = Fin 20, row_wind = Fin 7\<rparr>],
          [Fin 51, Fin 52])"
  by (simp add: hourly_rows_typed
        [where temps = "[JFloat (Fin 50), JFloat (Fin 51), JInt 52, JFloat (Fin 53)]"
           and precs = "[JNull, JInt 10, JInt 20]"
           and winds = "[JFloat (Fin 5), JFloat (Fin 6), JFloat (Fin 7), JFloat (Fin 8)]"]
      two_days_def is_number_def number_or_null_def enumerate0_examples of_day_examples
      row_at_def at_or0_def prec_at_def number_def number_or0_def small_ints clock_examples)

subsection \<open>The trend when no entry is of today\<close>

lemma hourly_entry_spark:
  "hourly_entry L today temps precs winds i t = Inr (Some (r, sp)) \<Longrightarrow> length sp \<le> 1"
  by (auto simp: hourly_entry_def andthen_def split: option.splits if_splits sum.splits)

lemma hourly_loop_spark:
  "hourly_loop L today temps precs winds its (rows, sv) = Inr (rows', sv') \<Longrightarrow>
   length sv \<le> length rows \<Longrightarrow> length sv' \<le> length rows'"
proof (induction its arbitrary: rows sv)
  case Nil
  then show ?case by simp
next
  case (Cons it its)
  obtain i t where it: "it = (i, t)" by (cases it)
  show ?case
  proof (cases "hourly_entry L today temps precs winds i t")
    case (Inl e)
    with Cons.prems it show ?thesis by simp
  next
    case (Inr res)
    show ?thesis
    proof (cases res)
      case None
      with Cons Inr it show ?thesis by simp
    next
      case (Some rs)
      obtain r sp where rs: "rs = (r, sp)" by (cases rs)
      from Inr Some rs have "length sp \<le> 1" by (auto dest: hourly_entry_spark)
      with Cons.prems(2) have "length (sv @ sp) \<le> length (rows @ [r])" by simp
      moreover from Cons.prems(1) Inr Some rs it
      have "hourly_loop L today temps precs winds its (rows @ [r], sv @ sp) = Inr (rows', sv')"
        by simp
      ultimately show ?thesis by (rule Cons.IH [rotated])
    qed
  qed
qed

text \<open>
  \<^verbatim>\<open>spark_vals\<close> never holds more values than there are rows: when no row is kept, the
  other branch of line 307 passes an empty list.
\<close>

lemma fallback_never_used:
  assumes "hourly_rows L today hourly = Inr (rows, spark_vals)" and "rows = []"
  shows "trend rows spark_vals = []"
proof -
  from assms(1) obtain temps precs winds ts where
    "hourly_loop L today temps precs winds (enumerate0 ts) ([], []) = Inr (rows, spark_vals)"
    by (auto simp: hourly_rows_def andthen_def split: sum.splits)
  then have "length spark_vals \<le> length rows"
    by (rule hourly_loop_spark) simp
  with assms(2) show ?thesis by (simp add: trend_def)
qed

lemma trend_is_rows:
  assumes "hourly_rows L today hourly = Inr (rows, spark_vals)"
  shows "set_points (trend rows spark_vals) = map row_temp rows"
proof (cases "rows = []")
  case True
  with fallback_never_used [OF assms] show ?thesis by (simp add: set_points_def)
next
  case False
  then show ?thesis by (simp add: set_points_def trend_def)
qed

lemma other_day_rows:
  "hourly_rows stdlib new_year
     (JObj [(''time'', JArr [JStr ''2024-01-02T00:00'', JStr ''2024-01-02T01:00'']),
            (''temperature_2m'', JArr [JFloat (Fin 5), JFloat (Fin 6)])]) = Inr ([], [])"
  by (simp add: hourly_rows_typed [where temps = "[JFloat (Fin 5), JFloat (Fin 6)]" and precs = "[]"
        and winds = "[]"] is_number_def enumerate0_def upt_conv_Cons of_day_examples)

lemma other_day_blocks:
  "forecast_blocks stdlib other_day =
     Inr (JObj [(''time'', JArr [JStr ''2024-01-02T00:00'', JStr ''2024-01-02T01:00'']),
                (''temperature_2m'', JArr [JFloat (Fin 5), JFloat (Fin 6)])],
          JObj [], JFloat (Fin 89), JFloat (Fin 8), 1)"
  by (simp add: forecast_blocks_def other_day_def andthen_def py_or_def Let_def)

text \<open>
  C1. When no hourly entry is of today, the trend given to the sparkline is to be the
  temperatures of all entries that parse, whatever their date, and so not empty when
  one of them has a temperature. The handler appends to \<^verbatim>\<open>spark_vals\<close> only after the
  test of the date, so the list it falls back to is empty: on 1 January 2024, a forecast
  whose two hourly entries are of 2 January, with temperatures 5 and 6, is handled
  without an exception and leaves no rows and an empty trend, where \<open>[5, 6]\<close> is
  expected.
\<close>

theorem trend_fallback_lost:
  "(case on_reply stdlib new_year \<lparr>kind = ''forecast'', body = Some other_day\<rparr> located of
      (s', raised) \<Rightarrow> raised = None \<and> model_rows s' = [] \<and> spark_values s' = [])"
  by (simp add: on_reply_def handle_forecast_def other_day_blocks other_day_rows
      daily_rows_no_block fixed0_89 fixed0_8 located_eq init_def set_points_def trend_def
      fill_daily_strip_def apply_theme_def save_prefs_def Let_def)

subsection \<open>The rows of the hourly table\<close>







subsection \<open>Arrays shorter than the time array\<close>

text \<open>
  C5. For every array that has a length and every index not below that length, the
  look-ups \<^verbatim>\<open>float(xs[i]) if i < len(xs) else 0.0\<close> of the hourly and daily loops (and
  their variants for the precipitation and for the weather code) yield 0 and raise
  nothing; so in every row the loop keeps, the field read from an array that is too
  short is 0.0, and such an entry adds nothing to \<^verbatim>\<open>spark_vals\<close>.
\<close>

theorem short_array_gives_zero:
  assumes "py_len xs = Inr n" and "n \<le> i"
  shows "float_at L xs i = Inr (Fin 0) \<and> float_or0_at L xs i = Inr (Fin 0)
       \<and> int_at L xs i = Inr 0
       \<and> (\<forall>r sp. hourly_entry L today xs precs winds i t = Inr (Some (r, sp))
             \<longrightarrow> row_temp r = Fin 0 \<and> sp = [])
       \<and> (\<forall>r sp. hourly_entry L today temps xs winds i t = Inr (Some (r, sp))
             \<longrightarrow> row_precip r = Fin 0)
       \<and> (\<forall>r sp. hourly_entry L today temps precs xs i t = Inr (Some (r, sp))
             \<longrightarrow> row_wind r = Fin 0)"
proof -
  from assms have a: "float_at L xs i = Inr (Fin 0)" by (simp add: float_at_def andthen_def)
  from assms have b: "float_or0_at L xs i = Inr (Fin 0)" by (simp add: float_or0_at_def andthen_def)
  from assms have c: "int_at L xs i = Inr 0" by (simp add: int_at_def andthen_def)
  have d: "row_temp r = Fin 0 \<and> sp = []"
    if "hourly_entry L today xs precs winds i t = Inr (Some (r, sp))" for r sp
    using that assms a
    by (auto simp: hourly_entry_def andthen_def split: option.splits if_splits sum.splits)
  have e: "row_precip r = Fin 0"
    if "hourly_entry L today temps xs winds i t = Inr (Some (r, sp))" for r sp
    using that b
    by (auto simp: hourly_entry_def andthen_def split: option.splits if_splits sum.splits)
  have f: "row_wind r = Fin 0"
    if "hourly_entry L today temps precs xs i t = Inr (Some (r, sp))" for r sp
    using that a
    by (auto simp: hourly_entry_def andthen_def split: option.splits if_splits sum.splits)
  from a b c d e f show ?thesis by blast
qed

text \<open>
  The theorem at a time array of length 5 and a temperature array of length 3: the
  rows of the indices 3 and 4 have the temperature 0.0.
\<close>

theorem short_array_gives_zero_witness:
  "py_len (JArr [JFloat (Fin 61), JFloat (Fin 62), JFloat (Fin 63)]) = Inr 3
   \<and> float_at stdlib (JArr [JFloat (Fin 61), JFloat (Fin 62), JFloat (Fin 63)]) 3 = Inr (Fin 0)
   \<and> float_at stdlib (JArr [JFloat (Fin 61), JFloat (Fin 62), JFloat (Fin 63)]) 4 = Inr (Fin 0)
   \<and> hourly_entry stdlib new_year (JArr [JFloat (Fin 61), JFloat (Fin 62), JFloat (Fin 63)]) (JArr []) (JArr [])
        3 (JStr ''2024-01-01T03:00'')
      = Inr (Some (\<lparr>row_time = ''3:00 AM'', row_temp = Fin 0, row_precip = Fin 0, row_wind = Fin 0\<rparr>, []))
   \<and> hourly_rows stdlib new_year five_hours =
       Inr ([\<lparr>row_time = ''12:00 AM'', row_temp = Fin 61, row_precip = Fin 0, row_wind = Fin 0\<rparr>,
             \<lparr>row_time = ''1:00 AM'', row_temp = Fin 62, row_precip = Fin 0, row_wind = Fin 0\<rparr>,
             \<lparr>row_time = ''2:00 AM'', row_temp = Fin 63, row_precip = Fin 0, row_wind = Fin 0\<rparr>,
             \<lparr>row_time = ''3:00 AM'', row_temp = Fin 0, row_precip = Fin 0, row_wind = Fin 0\<rparr>,
             \<lparr>row_time = ''4:00 AM'', row_temp = Fin 0, row_precip = Fin 0, row_wind = Fin 0\<rparr>],
            [Fin 61, Fin 62, Fin 63])"
proof -
  let ?temps = "[JFloat (Fin 61), JFloat (Fin 62), JFloat (Fin 63)]"
  have len: "py_len (JArr ?temps) = Inr 3" by simp
  have t: "list_all is_number ?temps" by (simp add: is_number_def)
  have e: "list_all is_number []" "list_all number_or_null []" by simp_all
  from short_array_gives_zero [OF len, of 3 stdlib]
  have z3: "float_at stdlib (JArr ?temps) 3 = Inr (Fin 0)" by simp
  from short_array_gives_zero [OF len, of 4 stdlib]
  have z4: "float_at stdlib (JArr ?temps) 4 = Inr (Fin 0)" by simp
  have entry: "hourly_entry stdlib new_year (JArr ?temps) (JArr []) (JArr [])
        3 (JStr ''2024-01-01T03:00'')
      = Inr (Some (\<lparr>row_time = ''3:00 AM'', row_temp = Fin 0, row_precip = Fin 0, row_wind = Fin 0\<rparr>, []))"
    by (simp add: hourly_entry_typed [OF t e(2) e(1)] of_day_examples row_at_def at_or0_def prec_at_def
        clock_examples)
  have rows: "hourly_rows stdlib new_year five_hours =
       Inr ([\<lparr>row_time = ''12:00 AM'', row_temp = Fin 61, row_precip = Fin 0, row_wind = Fin 0\<rparr>,
             \<lparr>row_time = ''1:00 AM'', row_temp = Fin 62, row_precip = Fin 0, row_wind = Fin 0\<rparr>,
             \<lparr>row_time = ''2:00 AM'', row_temp = Fin 63, row_precip = Fin 0, row_wind = Fin 0\<rparr>,
             \<lparr>row_time = ''3:00 AM'', row_temp = Fin 0, row_precip = Fin 0, row_wind = Fin 0\<rparr>,
             \<lparr>row_time = ''4:00 AM'', row_temp = Fin 0, row_precip = Fin 0, row_wind = Fin 0\<rparr>],
            [Fin 61, Fin 62, Fin 63])"
    by (simp add: hourly_rows_typed [where temps = ?temps and precs = "[]" and winds = "[]"]
        five_hours_def is_number_def enumerate0_examples of_day_examples row_at_def at_or0_def
        prec_at_def
        number_def clock_examples)
  from len z3 z4 entry rows show ?thesis by blast
qed

subsection \<open>Daily cards\<close>

lemma py_int_whole:
  assumes "is_whole v"
  shows "py_int L v = Inr (whole v)"
proof (cases v)
  case (JFloat x)
  with assms show ?thesis by (cases x) (simp_all add: is_whole_def whole_def)
qed (use assms in \<open>simp_all add: is_whole_def whole_def\<close>)

lemma int_at_typed:
  "list_all is_whole (take k xs) \<Longrightarrow> i < k \<Longrightarrow> int_at L (JArr xs) i = Inr (code_at xs i)"
  by (simp add: int_at_def andthen_def code_at_def py_int_whole list_all_length)

lemma daily_entry_typed:
  assumes "i < length ds" "parses L (ds ! i)" "i < k"
    and "list_all is_number (take k mx)" "list_all is_number (take k mn)"
    and "list_all is_whole (take k cd)"
  shows "daily_entry L (JArr ds) (JArr mx) (JArr mn) (JArr cd) i = Inr (daily_at L ds mx mn cd i)"
  using assms(1,2)
  by (auto simp: daily_entry_def andthen_def float_at_typed [OF assms(4,3)]
      float_at_typed [OF assms(5,3)] int_at_typed [OF assms(6,3)] daily_at_def
      card_day_def parses_def raising_fromisoformat_def try_fromisoformat_def
      split: option.splits json.splits)

lemma daily_loop_typed:
  assumes "list_all is_number (take k mx)" "list_all is_number (take k mn)"
    and "list_all is_whole (take k cd)"
    and "\<forall>i \<in> set is. i < length ds \<and> i < k \<and> parses L (ds ! i)"
  shows "daily_loop L (JArr ds) (JArr mx) (JArr mn) (JArr cd) is rows =
           Inr (rows @ map (daily_at L ds mx mn cd) is)"
  using assms(4)
proof (induction "is" arbitrary: rows)
  case Nil
  show ?case by simp
next
  case (Cons i "is")
  then show ?case
    by (simp add: daily_entry_typed [OF _ _ _ assms(1-3)])
qed

text \<open>
  Whatever the arrays hold, when the daily loop raises nothing it has built
  \<open>min 5 n\<close> rows.
\<close>

lemma daily_loop_length:
  "daily_loop L d_dates d_max d_min d_code is rows = Inr rows' \<Longrightarrow>
   length rows' = length rows + length is"
proof (induction "is" arbitrary: rows)
  case Nil
  then show ?case by simp
next
  case (Cons i "is")
  then show ?case by (auto split: sum.splits)
qed

lemma daily_rows_length:
  assumes "daily_rows L daily = Inr rows_daily"
    and "py_get daily ''time'' (JArr []) = Inr d_dates" and "py_len d_dates = Inr n"
  shows "length rows_daily = min 5 n"
proof -
  from assms obtain d_max d_min d_code where
    "daily_loop L d_dates d_max d_min d_code [0..<min 5 n] [] = Inr rows_daily"
    by (auto simp: daily_rows_def andthen_def split: sum.splits)
  from daily_loop_length [OF this] show ?thesis by simp
qed

lemma daily_rows_typed:
  assumes "py_get daily ''time'' (JArr []) = Inr (JArr ds)"
    and "py_get daily ''temperature_2m_max'' (JArr []) = Inr (JArr mx)"
    and "py_get daily ''temperature_2m_min'' (JArr []) = Inr (JArr mn)"
    and "py_get daily ''weathercode'' (JArr []) = Inr (JArr cd)"
    and "list_all (parses L) (take 5 ds)"
    and "list_all is_number (take 5 mx)" and "list_all is_number (take 5 mn)"
    and "list_all is_whole (take 5 cd)"
  shows "daily_rows L daily = Inr (map (daily_at L ds mx mn cd) [0..<min 5 (length ds)])"
proof -
  have "\<forall>i \<in> set [0..<min 5 (length ds)]. i < length ds \<and> i < 5 \<and> parses L (ds ! i)"
  proof
    fix i assume "i \<in> set [0..<min 5 (length ds)]"
    then have i: "i < 5" "i < length ds" by simp_all
    then have "i < length (take 5 ds)" by simp
    with assms(5) have "parses L (take 5 ds ! i)" by (simp add: list_all_length)
    with i show "i < length ds \<and> i < 5 \<and> parses L (ds ! i)" by simp
  qed
  from daily_loop_typed [OF assms(6-8) this] assms(1-4)
  show ?thesis
    by (simp add: daily_rows_def andthen_def)
qed

lemma week_gets:
  "py_get week ''time'' (JArr []) =
     Inr (JArr [JStr ''2024-01-01'', JStr ''2024-01-02'', JStr ''2024-01-03'',
                JStr ''2024-01-04'', JStr ''2024-01-05'', JStr ''2024-01-06'',
                JStr ''2024-01-07''])"
  "py_get week ''temperature_2m_max'' (JArr []) =
     Inr (JArr [JFloat (Fin 80), JFloat (Fin 81), JFloat (Fin 82)])"
  "py_get week ''temperature_2m_min'' (JArr []) =
     Inr (JArr [JFloat (Fin 60), JFloat (Fin 61), JFloat (Fin 62), JFloat (Fin 63),
                JFloat (Fin 64), JFloat (Fin 65), JFloat (Fin 66)])"
  "py_get week ''weathercode'' (JArr []) =
     Inr (JArr [JInt 0, JInt 1, JInt 2, JInt 3, JInt 45, JInt 48, JInt 51])"
  by (simp_all add: week_def)

lemma week_typed:
  "list_all (parses stdlib) (take 5 [JStr ''2024-01-01'', JStr ''2024-01-02'',
       JStr ''2024-01-03'', JStr ''2024-01-04'', JStr ''2024-01-05'', JStr ''2024-01-06'',
       JStr ''2024-01-07''])"
  "list_all is_number (take 5 [JFloat (Fin 80), JFloat (Fin 81), JFloat (Fin 82)])"
  "list_all is_number (take 5 [JFloat (Fin 60), JFloat (Fin 61), JFloat (Fin 62),
       JFloat (Fin 63), JFloat (Fin 64), JFloat (Fin 65), JFloat (Fin 66)])"
  "list_all is_whole (take 5 [JInt 0, JInt 1, JInt 2, JInt 3, JInt 45, JInt 48, JInt 51])"
  by (simp_all add: parses_examples is_number_def is_whole_def)

lemma week_indices:
  "[0..<min 5 (length [JStr ''2024-01-01'', JStr ''2024-01-02'', JStr ''2024-01-03'',
       JStr ''2024-01-04'', JStr ''2024-01-05'', JStr ''2024-01-06'', JStr ''2024-01-07''])]
   = [0, 1, 2, 3, 4]"
  by (simp add: upt_conv_Cons)

lemma week_rows:
  "daily_rows stdlib week =
       Inr [\<lparr>card_date = ''Mon'', card_max = Fin 80, card_min = Fin 60, card_code = 0\<rparr>,
            \<lparr>card_date = ''Tue'', card_max = Fin 81, card_min = Fin 61, card_code = 1\<rparr>,
            \<lparr>card_date = ''Wed'', card_max = Fin 82, card_min = Fin 62, card_code = 2\<rparr>,
            \<lparr>card_date = ''Thu'', card_max = Fin 0, card_min = Fin 63, card_code = 3\<rparr>,
            \<lparr>card_date = ''Fri'', card_max = Fin 0, card_min = Fin 64, card_code = 45\<rparr>]"
  unfolding daily_rows_typed [OF week_gets week_typed] week_indices
  by (simp add: daily_at_def at_or0_def code_at_def number_def whole_def card_day_examples)

lemma fixed0_examples:
  "fixed0 80 = ''80''" "fixed0 81 = ''81''" "fixed0 82 = ''82''" "fixed0 60 = ''60''"
  "fixed0 61 = ''61''" "fixed0 62 = ''62''" "fixed0 63 = ''63''" "fixed0 64 = ''64''"
  by (simp_all add: fixed0_def round_half_even_def show_nat2 digit_chars)

lemma no_date_blocks:
  "forecast_blocks stdlib (JObj [(''daily'', no_date)]) =
     Inr (JObj [], no_date, JFloat (Fin 0), JFloat (Fin 0), 0)"
  by (simp add: forecast_blocks_def andthen_def py_or_def Let_def no_date_def)

lemma no_date_rows: "daily_rows stdlib no_date = Inl ValueError"
proof -
  have bad: "fromisoformat stdlib ''tomorrow'' = None"
    by (simp add: stdlib_def iso_parse_dates)
  have first: "daily_entry stdlib (JArr [JStr ''2024-01-01'', JStr ''tomorrow'']) (JArr [])
      (JArr []) (JArr []) 0 = Inr (daily_at stdlib [JStr ''2024-01-01'', JStr ''tomorrow'']
         [] [] [] 0)"
    by (rule daily_entry_typed [where k = 5]) (simp_all add: parses_examples)
  have second: "daily_entry stdlib (JArr [JStr ''2024-01-01'', JStr ''tomorrow'']) (JArr [])
      (JArr []) (JArr []) (Suc 0) = Inl ValueError"
    by (simp add: daily_entry_def andthen_def raising_fromisoformat_def bad)
  show ?thesis
    by (simp add: daily_rows_def no_date_def andthen_def upt_conv_Cons first second)
qed

text \<open>
  C6. For every forecast reply whose body is a dict from which the handler reads its
  three blocks and a weather code that converts to an int, whose current temperature
  and wind speed can be formatted, received after a place was resolved, on whose hourly
  block the hourly loop raises nothing, and whose daily arrays are lists in which the
  first five dates parse, the first five maxima and minima are numbers and the first
  five codes are ints or finite floats: the handler raises nothing and fills the strip
  with exactly \<open>min 5 n\<close> cards, \<open>n\<close> being the length of the \<^verbatim>\<open>time\<close> array.
  They are the cards of the indices 0, 1, ... in order, each with the weekday of its
  date, the glyph of its code and its rounded maximum and minimum, where 0 or 0.0
  stands for a code, maximum or minimum whose array ends before the index.
\<close>

theorem daily_cards_first_five:
  assumes "kind r = ''forecast''" and "body r = Some payload"
    and "forecast_blocks L payload = Inr (hourly, daily, temp, wind, code)"
    and "fmt0f temp = Inr temp_text" and "fmt0f wind = Inr wind_text"
    and "resolved_place s = Some place"
    and "hourly_rows L today hourly = Inr (rows, spark_vals)"
    and "py_get daily ''time'' (JArr []) = Inr (JArr ds)"
    and "py_get daily ''temperature_2m_max'' (JArr []) = Inr (JArr mx)"
    and "py_get daily ''temperature_2m_min'' (JArr []) = Inr (JArr mn)"
    and "py_get daily ''weathercode'' (JArr []) = Inr (JArr cd)"
    and "list_all (parses L) (take 5 ds)"
    and "list_all is_number (take 5 mx)" and "list_all is_number (take 5 mn)"
    and "list_all is_whole (take 5 cd)"
  shows "snd (on_reply L today r s) = None
       \<and> daily_strip (fst (on_reply L today r s)) =
           map (card_at L ds mx mn cd) [0..<min 5 (length ds)]
       \<and> length (daily_strip (fst (on_reply L today r s))) = min 5 (length ds)"
proof -
  note cards = daily_rows_typed [OF assms(8-15)]
  note run = handle_forecast_completes [OF assms(3-7) cards]
  have "map (\<lambda>d. \<lparr>label_date = card_date d, label_icon = emoji_from_code (card_code d),
                    label_temps = [fmt_float (card_max d), fmt_float (card_min d)]\<rparr>)
          (map (daily_at L ds mx mn cd) [0..<min 5 (length ds)])
        = map (card_at L ds mx mn cd) [0..<min 5 (length ds)]"
    by (simp add: card_at_def daily_at_def)
  with on_reply_forecast [OF assms(1,2), of L today s] run show ?thesis
    by (simp add: save_prefs_def apply_theme_def fill_daily_strip_def)
qed

text \<open>
  The theorem at the forecast for Fort Myers, whose daily block has seven days and
  three maxima: five cards, Monday to Friday, the last two with the maximum 0.
\<close>

theorem daily_cards_first_five_witness:
  "forecast_blocks stdlib fort_myers_forecast =
     Inr (two_days, week, JFloat (Fin 89), JFloat (Fin 8), 1)
   \<and> resolved_place located = Some ''Fort Myers, Florida, United States''
   \<and> list_all (parses stdlib) (take 5 [JStr ''2024-01-01'', JStr ''2024-01-02'',
       JStr ''2024-01-03'', JStr ''2024-01-04'', JStr ''2024-01-05'', JStr ''2024-01-06'',
       JStr ''2024-01-07''])
   \<and> list_all is_number (take 5 [JFloat (Fin 80), JFloat (Fin 81), JFloat (Fin 82)])
   \<and> list_all is_whole (take 5 [JInt 0, JInt 1, JInt 2, JInt 3, JInt 45, JInt 48, JInt 51])
   \<and> snd (on_reply stdlib new_year
         \<lparr>kind = ''forecast'', body = Some fort_myers_forecast\<rparr> located) = None
   \<and> daily_strip (fst (on_reply stdlib new_year
         \<lparr>kind = ''forecast'', body = Some fort_myers_forecast\<rparr> located)) =
       [\<lparr>label_date = ''Mon'', label_icon = [0x2600, 0xFE0F], label_temps = [''80'', ''60'']\<rparr>,
        \<lparr>label_date = ''Tue'', label_icon = [0x26C5, 0xFE0F], label_temps = [''81'', ''61'']\<rparr>,
        \<lparr>label_date = ''Wed'', label_icon = [0x26C5, 0xFE0F], label_temps = [''82'', ''62'']\<rparr>,
        \<lparr>label_date = ''Thu'', label_icon = [0x26C5, 0xFE0F], label_temps = [''0'', ''63'']\<rparr>,
        \<lparr>label_date = ''Fri'', label_icon = [0x1F32B, 0xFE0F], label_temps = [''0'', ''64'']\<rparr>]"
proof -
  let ?r = "\<lparr>kind = ''forecast'', body = Some fort_myers_forecast\<rparr>"
  let ?ds = "[JStr ''2024-01-01'', JStr ''2024-01-02'', JStr ''2024-01-03'',
              JStr ''2024-01-04'', JStr ''2024-01-05'', JStr ''2024-01-06'',
              JStr ''2024-01-07'']"
  let ?mx = "[JFloat (Fin 80), JFloat (Fin 81), JFloat (Fin 82)]"
  let ?mn = "[JFloat (Fin 60), JFloat (Fin 61), JFloat (Fin 62), JFloat (Fin 63),
              JFloat (Fin 64), JFloat (Fin 65), JFloat (Fin 66)]"
  let ?cd = "[JInt 0, JInt 1, JInt 2, JInt 3, JInt 45, JInt 48, JInt 51]"
  have k: "kind ?r = ''forecast''" and b: "body ?r = Some fort_myers_forecast" by simp_all
  have cards: "map (card_at stdlib ?ds ?mx ?mn ?cd) [0, 1, 2, 3, 4] =
       [\<lparr>label_date = ''Mon'', label_icon = [0x2600, 0xFE0F], label_temps = [''80'', ''60'']\<rparr>,
        \<lparr>label_date = ''Tue'', label_icon = [0x26C5, 0xFE0F], label_temps = [''81'', ''61'']\<rparr>,
        \<lparr>label_date = ''Wed'', label_icon = [0x26C5, 0xFE0F], label_temps = [''82'', ''62'']\<rparr>,
        \<lparr>label_date = ''Thu'', label_icon = [0x26C5, 0xFE0F], label_temps = [''0'', ''63'']\<rparr>,
        \<lparr>label_date = ''Fri'', label_icon = [0x1F32B, 0xFE0F], label_temps = [''0'', ''64'']\<rparr>]"
    by (simp add: card_at_def at_or0_def code_at_def number_def whole_def card_day_examples
        emoji_from_code_def fixed0_examples fixed0_zero)
  note shown = daily_cards_first_five [OF k b fort_myers_blocks fort_myers_shown(1,2)
      located_place two_days_rows week_gets week_typed]
  from shown have none: "snd (on_reply stdlib new_year ?r located) = None" by blast
  from shown have "daily_strip (fst (on_reply stdlib new_year ?r located)) =
      map (card_at stdlib ?ds ?mx ?mn ?cd) [0..<min 5 (length ?ds)]" by blast
  then have strip: "daily_strip (fst (on_reply stdlib new_year ?r located)) =
       [\<lparr>label_date = ''Mon'', label_icon = [0x2600, 0xFE0F], label_temps = [''80'', ''60'']\<rparr>,
        \<lparr>label_date = ''Tue'', label_icon = [0x26C5, 0xFE0F], label_temps = [''81'', ''61'']\<rparr>,
        \<lparr>label_date = ''Wed'', label_icon = [0x26C5, 0xFE0F], label_temps = [''82'', ''62'']\<rparr>,
        \<lparr>label_date = ''Thu'', label_icon = [0x26C5, 0xFE0F], label_temps = [''0'', ''63'']\<rparr>,
        \<lparr>label_date = ''Fri'', label_icon = [0x1F32B, 0xFE0F], label_temps = [''0'', ''64'']\<rparr>]"
    by (simp only: week_indices cards)
  from fort_myers_blocks located_place week_typed(1,2,4) none strip show ?thesis by blast
qed

text \<open>
  Without the condition on the dates the strip does not get \<open>min 5 n\<close> cards: the daily
  block of this forecast has two dates, the second is the word \<^verbatim>\<open>tomorrow\<close>, and the
  handler raises ValueError on line 317 and makes no card.
\<close>

theorem unparsed_date_no_cards:
  "(case on_reply stdlib new_year
           \<lparr>kind = ''forecast'', body = Some (JObj [(''daily'', no_date)])\<rparr> located of
      (s', raised) \<Rightarrow> raised = Some ValueError \<and> daily_strip s' = [])
   \<and> py_get no_date ''time'' (JArr []) = Inr (JArr [JStr ''2024-01-01'', JStr ''tomorrow''])
   \<and> min 5 (length [JStr ''2024-01-01'', JStr ''tomorrow'']) = 2"
proof -
  let ?r = "\<lparr>kind = ''forecast'', body = Some (JObj [(''daily'', no_date)])\<rparr>"
  have run: "on_reply stdlib new_year ?r located =
      handle_forecast stdlib new_year (JObj [(''daily'', no_date)]) located"
    by (simp add: on_reply_def)
  note stop = handle_forecast_daily_raises_with [OF no_date_blocks fort_myers_shown(3)
      fort_myers_shown(3) located_place hourly_rows_no_block no_date_rows]
  have none: "daily_strip located = []" by (simp add: located_eq init_def)
  have a: "(case on_reply stdlib new_year ?r located of
      (s', raised) \<Rightarrow> raised = Some ValueError \<and> daily_strip s' = [])"
    unfolding run using stop none by (simp add: case_prod_unfold)
  have g: "py_get no_date ''time'' (JArr []) = Inr (JArr [JStr ''2024-01-01'', JStr ''tomorrow''])"
    by (simp add: no_date_def)
  from a g show ?thesis by simp
qed

lemma daily_loop_raises:
  "i \<in> set is \<Longrightarrow> daily_entry L d_dates d_max d_min d_code i = Inl e \<Longrightarrow>
   \<exists>e'. daily_loop L d_dates d_max d_min d_code is rows = Inl e'"
proof (induction "is" arbitrary: rows)
  case Nil
  then show ?case by simp
next
  case (Cons j "is")
  show ?case
  proof (cases "daily_entry L d_dates d_max d_min d_code j")
    case (Inl e1)
    then show ?thesis by simp
  next
    case (Inr r)
    with Cons.prems have "i \<in> set is" by auto
    from Cons.IH [OF this Cons.prems(2)] Inr show ?thesis by simp
  qed
qed

lemma daily_rows_raises:
  assumes "py_get daily ''time'' (JArr []) = Inr (JArr ds)"
    and "i < min 5 (length ds)" and "ds ! i = JStr str" and "fromisoformat L str = None"
  shows "\<exists>e. daily_rows L daily = Inl e"
proof -
  from assms(1) obtain kvs where daily: "daily = JObj kvs" by (cases daily) simp_all
  obtain d_max d_min d_code where gets:
    "py_get daily ''temperature_2m_max'' (JArr []) = Inr d_max"
    "py_get daily ''temperature_2m_min'' (JArr []) = Inr d_min"
    "py_get daily ''weathercode'' (JArr []) = Inr d_code"
    by (simp add: daily)
  from assms(2-4) have "daily_entry L (JArr ds) d_max d_min d_code i = Inl ValueError"
    by (simp add: daily_entry_def andthen_def raising_fromisoformat_def)
  moreover from assms(2) have "i \<in> set [0..<min 5 (length ds)]" by simp
  ultimately obtain e where
    "daily_loop L (JArr ds) d_max d_min d_code [0..<min 5 (length ds)] [] = Inl e"
    using daily_loop_raises by blast
  with assms(1) gets show ?thesis by (simp add: daily_rows_def andthen_def)
qed

lemma handle_forecast_raise_keeps_strip:
  "handle_forecast L today payload s = (s', Some e) \<Longrightarrow> daily_strip s' = daily_strip s"
  by (auto simp: handle_forecast_def Let_def save_prefs_def
      split: sum.splits option.splits prod.splits)

lemma handle_forecast_daily_raises:
  assumes "forecast_blocks L payload = Inr (hourly, daily, temp, wind, code)"
    and "daily_rows L daily = Inl e"
  shows "\<exists>s' e'. handle_forecast L today payload s = (s', Some e')"
  using assms
  by (auto simp: handle_forecast_def Let_def split: sum.splits option.splits prod.splits)

text \<open>
  C10. The daily loop parses its dates outside any \<^verbatim>\<open>try\<close>: whenever one of the first
  \<open>min 5 n\<close> entries of the daily \<^verbatim>\<open>time\<close> array is a string that does not parse, the
  daily rows are not built, the handler raises, and it leaves the strip of daily cards
  as it was: no entry is skipped and no default is shown. The hourly loop, given the
  same string, skips the entry.
\<close>

theorem daily_date_not_tolerated:
  assumes "forecast_blocks L payload = Inr (hourly, daily, temp, wind, code)"
    and "py_get daily ''time'' (JArr []) = Inr (JArr ds)"
    and "i < min 5 (length ds)" and "ds ! i = JStr str" and "fromisoformat L str = None"
  shows "(\<exists>e. daily_rows L daily = Inl e)
       \<and> (\<exists>s' e. handle_forecast L today payload s = (s', Some e)
                 \<and> daily_strip s' = daily_strip s)
       \<and> hourly_entry L today temps precs winds j (JStr str) = Inr None"
proof -
  from daily_rows_raises [OF assms(2-5)] obtain e where e: "daily_rows L daily = Inl e" ..
  from handle_forecast_daily_raises [OF assms(1) e] obtain s' e'
    where run: "handle_forecast L today payload s = (s', Some e')" by blast
  from handle_forecast_raise_keeps_strip [OF run] have "daily_strip s' = daily_strip s" .
  moreover from assms(5) have "hourly_entry L today temps precs winds j (JStr str) = Inr None"
    by (simp add: hourly_entry_def try_fromisoformat_def)
  ultimately show ?thesis using e run by blast
qed

text \<open>
  The theorem at a forecast whose second daily date is the word \<^verbatim>\<open>tomorrow\<close>, in reply
  to the request for Fort Myers: the \<^verbatim>\<open>ValueError\<close> of the parser is raised.
\<close>

theorem daily_date_not_tolerated_witness:
  "forecast_blocks stdlib (JObj [(''daily'', no_date)]) =
     Inr (JObj [], no_date, JFloat (Fin 0), JFloat (Fin 0), 0)
   \<and> py_get no_date ''time'' (JArr []) = Inr (JArr [JStr ''2024-01-01'', JStr ''tomorrow''])
   \<and> fromisoformat stdlib ''tomorrow'' = None
   \<and> daily_rows stdlib no_date = Inl ValueError
   \<and> (\<exists>s' e. handle_forecast stdlib new_year (JObj [(''daily'', no_date)]) located = (s', Some e)
             \<and> daily_strip s' = daily_strip located)
   \<and> hourly_entry stdlib new_year (JArr []) (JArr []) (JArr []) 0 (JStr ''tomorrow'') = Inr None"
proof -
  have g: "py_get no_date ''time'' (JArr []) = Inr (JArr [JStr ''2024-01-01'', JStr ''tomorrow''])"
    by (simp add: no_date_def)
  have i: "(1::nat) < min 5 (length [JStr ''2024-01-01'', JStr ''tomorrow''])" by simp
  have at: "[JStr ''2024-01-01'', JStr ''tomorrow''] ! 1 = JStr ''tomorrow''" by simp
  have bad: "fromisoformat stdlib ''tomorrow'' = None"
    by (simp add: stdlib_def iso_parse_dates)
  from daily_date_not_tolerated [OF no_date_blocks g i at bad, of new_year located "JArr []"
      "JArr []" "JArr []" 0]
  have "(\<exists>s' e. handle_forecast stdlib new_year (JObj [(''daily'', no_date)]) located
               = (s', Some e) \<and> daily_strip s' = daily_strip located)
      \<and> hourly_entry stdlib new_year (JArr []) (JArr []) (JArr []) 0 (JStr ''tomorrow'')
          = Inr None"
    by blast
  with no_date_blocks g bad no_date_rows show ?thesis by blast
qed

subsection \<open>Favorites\<close>

text \<open>
  C9. For every state, \<^verbatim>\<open>_fav_add\<close> with a name that is already a favorite and
  \<^verbatim>\<open>_fav_remove\<close> with a name that is no favorite change nothing: the list of favorites
  keeps its elements and their order, and nothing is saved. Adding twice is adding once,
  and so is removing twice when the favorites hold no name twice.
\<close>

theorem favorites_noop:
  "(strip (city_edit s) \<in> set (favorites (prefs s)) \<longrightarrow> fav_add s = s)
   \<and> (strip current \<notin> set (favorites (prefs s)) \<longrightarrow> fav_remove current s = s)
   \<and> fav_add (fav_add s) = fav_add s
   \<and> (distinct (favorites (prefs s)) \<longrightarrow>
        fav_remove current (fav_remove current s) = fav_remove current s)"
proof (intro conjI impI)
  show "fav_add (fav_add s) = fav_add s"
    by (simp add: fav_add_def Let_def refresh_favorites_def save_prefs_def)
next
  assume "distinct (favorites (prefs s))"
  then show "fav_remove current (fav_remove current s) = fav_remove current s"
    by (simp add: fav_remove_def Let_def refresh_favorites_def save_prefs_def)
qed (simp_all add: fav_add_def fav_remove_def Let_def)

text \<open>
  The theorem at a state whose only favorite is Paris: adding Paris, typed between
  blanks, and removing Rome change nothing.
\<close>

theorem favorites_noop_witness:
  "strip (city_edit with_paris) \<in> set (favorites (prefs with_paris))
   \<and> fav_add with_paris = with_paris
   \<and> strip ''Rome'' \<notin> set (favorites (prefs with_paris))
   \<and> fav_remove ''Rome'' with_paris = with_paris
   \<and> favorites (prefs (fav_add with_paris)) = [''Paris'']
   \<and> distinct (favorites (prefs with_paris))
   \<and> fav_remove ''Rome'' (fav_remove ''Rome'' with_paris) = fav_remove ''Rome'' with_paris"
proof -
  have a: "strip (city_edit with_paris) \<in> set (favorites (prefs with_paris))"
    by (simp add: with_paris_def init_def strip_def is_space_def)
  have b: "strip ''Rome'' \<notin> set (favorites (prefs with_paris))"
    by (simp add: with_paris_def init_def strip_def is_space_def)
  have c: "distinct (favorites (prefs with_paris))"
    by (simp add: with_paris_def init_def)
  have d: "favorites (prefs with_paris) = [''Paris'']"
    by (simp add: with_paris_def init_def)
  from favorites_noop [of with_paris "''Rome''"] a b c d show ?thesis by simp
qed

subsection \<open>Geocode replies without a match\<close>

text \<open>
  C7. For every geocode reply whose body does not parse or whose results are an empty
  list (or absent), the handler shows the warning "City not found", enables the fetch
  button again and raises nothing; it sends no request, so the forecast is never asked
  for.
\<close>

theorem geocode_no_match_not_found:
  assumes "kind r = ''geocode''" and "no_match (body r)"
  shows "on_reply L today r s =
           (s\<lparr>dialogs := dialogs s @ [Warning ''Not found'' ''City not found.''],
              fetch_btn := True\<rparr>, None)
         \<and> sent (fst (on_reply L today r s)) = sent s"
proof -
  have nf: "absent kvs ''results'' \<Longrightarrow> handle_geocode (JObj kvs) s =
           (s\<lparr>dialogs := dialogs s @ [Warning ''Not found'' ''City not found.''],
              fetch_btn := True\<rparr>, None)" for kvs
    by (simp add: handle_geocode_def get_absent Let_def)
  have "absent [] ''results''" by (simp add: absent_def)
  from nf [OF this] have unparsed: "handle_geocode (JObj []) s =
           (s\<lparr>dialogs := dialogs s @ [Warning ''Not found'' ''City not found.''],
              fetch_btn := True\<rparr>, None)" .
  show ?thesis
  proof (cases "body r")
    case None
    with assms(1) unparsed show ?thesis by (simp add: on_reply_def)
  next
    case (Some p)
    with assms(2) obtain kvs where p: "p = JObj kvs" and a: "absent kvs ''results''"
      by (cases p) (simp_all add: no_match_def)
    from Some p assms(1) nf [OF a] show ?thesis by (simp add: on_reply_def)
  qed
qed

text \<open>
  The theorem at a body that does not parse and at \<^verbatim>\<open>{"results": []}\<close>, both in
  reply to the request for Fort Myers.
\<close>

theorem geocode_no_match_not_found_witness:
  "no_match None \<and> no_match (Some (JObj [(''results'', JArr [])]))
   \<and> on_reply stdlib new_year \<lparr>kind = ''geocode'', body = None\<rparr> submitted
       = (submitted\<lparr>dialogs := [Warning ''Not found'' ''City not found.''],
                    fetch_btn := True\<rparr>, None)
   \<and> sent (fst (on_reply stdlib new_year
         \<lparr>kind = ''geocode'', body = Some (JObj [(''results'', JArr [])])\<rparr> submitted))
       = [Geocode ''Fort Myers'']"
proof -
  have a: "no_match None" by (simp add: no_match_def)
  have b: "no_match (Some (JObj [(''results'', JArr [])]))"
    by (simp add: no_match_def absent_def)
  from geocode_no_match_not_found
         [of "\<lparr>kind = ''geocode'', body = None\<rparr>" stdlib new_year submitted]
       geocode_no_match_not_found
         [of "\<lparr>kind = ''geocode'', body = Some (JObj [(''results'', JArr [])])\<rparr>"
             stdlib new_year submitted] a b
  show ?thesis by (simp add: submitted_eq init_def)
qed

subsection \<open>Submitting an empty name\<close>

text \<open>
  C8. For every state in which the city field is empty once stripped, \<^verbatim>\<open>fetch\<close> only
  shows the message "Please enter a city": it sends no request, does not disable the
  fetch button and changes and saves no preference.
\<close>

theorem fetch_empty_rejected:
  assumes "strip (city_edit s) = []"
  shows "fetch s = s\<lparr>dialogs := dialogs s @ [Information ''Missing'' ''Please enter a city.'']\<rparr>
       \<and> sent (fetch s) = sent s \<and> fetch_btn (fetch s) = fetch_btn s
       \<and> prefs (fetch s) = prefs s \<and> saved (fetch s) = saved s"
  using assms by (simp add: fetch_def)

text \<open>The theorem at the start state with two blanks typed into the city field.\<close>

theorem fetch_empty_rejected_witness:
  "strip (city_edit ((init defaults)\<lparr>city_edit := ''  ''\<rparr>)) = []
   \<and> sent (fetch ((init defaults)\<lparr>city_edit := ''  ''\<rparr>)) = []
   \<and> fetch_btn (fetch ((init defaults)\<lparr>city_edit := ''  ''\<rparr>))
   \<and> dialogs (fetch ((init defaults)\<lparr>city_edit := ''  ''\<rparr>))
       = [Information ''Missing'' ''Please enter a city.'']"
proof -
  have blank: "strip (city_edit ((init defaults)\<lparr>city_edit := ''  ''\<rparr>)) = []"
    by (simp add: strip_def is_space_def)
  from fetch_empty_rejected [OF blank] blank show ?thesis
    by (simp add: init_def)
qed

subsection \<open>Weather codes\<close>

text \<open>
  C4. \<^verbatim>\<open>_condition_from_code\<close> is a total function of the integer code: clear for 0,
  clouds for 1 to 3, fog for 45 and 48, drizzle for 51 to 60, rain for 61 to 67, snow for
  71 to 77, showers for 80 to 82, storm for 95 to 99, and default for every other
  integer, among them 100 and -5.
\<close>

theorem condition_from_code_table:
  "condition_from_code c =
     (if c = 0 then ''clear''
      else if 1 \<le> c \<and> c \<le> 3 then ''clouds''
      else if c = 45 \<or> c = 48 then ''fog''
      else if 51 \<le> c \<and> c \<le> 60 then ''drizzle''
      else if 61 \<le> c \<and> c \<le> 67 then ''rain''
      else if 71 \<le> c \<and> c \<le> 77 then ''snow''
      else if 80 \<le> c \<and> c \<le> 82 then ''showers''
      else if 95 \<le> c \<and> c \<le> 99 then ''storm''
      else ''default'')
   \<and> condition_from_code 100 = ''default''
   \<and> condition_from_code (- 5) = ''default''"
proof -
  have table: "condition_from_code c =
     (if c = 0 then ''clear''
      else if 1 \<le> c \<and> c \<le> 3 then ''clouds''
      else if c = 45 \<or> c = 48 then ''fog''
      else if 51 \<le> c \<and> c \<le> 60 then ''drizzle''
      else if 61 \<le> c \<and> c \<le> 67 then ''rain''
      else if 71 \<le> c \<and> c \<le> 77 then ''snow''
      else if 80 \<le> c \<and> c \<le> 82 then ''showers''
      else if 95 \<le> c \<and> c \<le> 99 then ''storm''
      else ''default'')"
    unfolding condition_from_code_def by auto
  have hundred: "condition_from_code 100 = ''default''"
    by (simp add: condition_from_code_def)
  have minus_five: "condition_from_code (- 5) = ''default''"
    by (simp add: condition_from_code_def)
  from table hundred minus_five show ?thesis by blast
qed

subsection \<open>A complete run\<close>

text \<open>
  The run of the examples ends with the view of Fort Myers: 89 degrees and clouds, the
  two rows of the day, and five daily cards.
\<close>

lemma fort_myers_ready:
  "(case on_reply stdlib new_year \<lparr>kind = ''forecast'', body = Some fort_myers_forecast\<rparr>
          located of
      (s', raised) \<Rightarrow>
        raised = None \<and> header s' = [''89'', ''F'', ''Clouds'']
        \<and> subheader s' = [''8'', ''mph'', ''Monday'']
        \<and> location_label s' = ''Fort Myers, Florida, United States''
        \<and> map row_time (model_rows s') = [''12:00 AM'', ''1:00 PM'']
        \<and> spark_values s' = [Fin 51, Fin 52]
        \<and> map label_date (daily_strip s') = [''Mon'', ''Tue'', ''Wed'', ''Thu'', ''Fri'']
        \<and> fetch_btn s' \<and> auto_timer s' \<and> last_city (prefs s') = ''Fort Myers''
        \<and> dialogs s' = [])"
proof -
  have p: "resolved_place located = Some ''Fort Myers, Florida, United States''"
    by (simp add: located_eq)
  note f = fort_myers_shown(1,2)
  have monday: "strftime_A new_year = ''Monday''"
    by (simp add: strftime_A_def weekday_def toordinal_def days_before_year_def
        days_before_month_def new_year_def)
  have clouds: "condition_from_code 1 = ''clouds''" by (simp add: condition_from_code_def)
  note run = handle_forecast_completes [OF fort_myers_blocks f p two_days_rows week_rows]
  have "on_reply stdlib new_year \<lparr>kind = ''forecast'', body = Some fort_myers_forecast\<rparr>
          located = handle_forecast stdlib new_year fort_myers_forecast located"
    by (simp add: on_reply_def)
  then show ?thesis
    unfolding run
    by (simp add: clouds title_clouds monday save_prefs_def apply_theme_def
        fill_daily_strip_def set_points_def trend_def located_eq init_def defaults_def
        strip_fort_myers)
qed

end
